theory Spec2Isabelle
  imports Main "HOL-Library.Sublist"
begin

section \<open>Go strings\<close>

text \<open>
  A Go string is a sequence of bytes, here a \<^typ>\<open>string\<close>. Text outside ASCII is
  written as its UTF-8 bytes.
\<close>

definition isAlnum :: "char \<Rightarrow> bool" where
  \<comment> \<open>membership in the character class \<^verbatim>\<open>a-zA-Z0-9\<close>\<close>
  "isAlnum c =
     (let n = (of_char c :: nat)
      in (97 \<le> n \<and> n \<le> 122) \<or> (65 \<le> n \<and> n \<le> 90) \<or> (48 \<le> n \<and> n \<le> 57))"

text \<open>
  \<^verbatim>\<open>reg.ReplaceAllString(src, repl)\<close> for \<^verbatim>\<open>reg = [^a-zA-Z0-9]+\<close>: every maximal run
  of characters outside the class is one match and is replaced by \<open>repl\<close>. A code point
  outside ASCII, and an invalid byte, consist of bytes from 128 up only, so the run of
  code points that the expression matches is the run of bytes outside the class.
\<close>

function reg_ReplaceAllString :: "string \<Rightarrow> string \<Rightarrow> string" where
  "reg_ReplaceAllString [] repl = []"
| "reg_ReplaceAllString (c # cs) repl =
     (if isAlnum c then c # reg_ReplaceAllString cs repl
      else repl @ reg_ReplaceAllString (dropWhile (\<lambda>x. \<not> isAlnum x) cs) repl)"
  by pat_completeness auto
termination
  by (relation "measure (\<lambda>(src, repl). length src)")
     (auto simp: le_imp_less_Suc length_dropWhile_le)

definition toLowerByte :: "char \<Rightarrow> char" where
  "toLowerByte c =
     (let n = (of_char c :: nat) in if 65 \<le> n \<and> n \<le> 90 then char_of (n + 32) else c)"

text \<open>
  \<^verbatim>\<open>strings.ToLower\<close> on the ASCII letters. The library function also maps code points
  outside ASCII; the two places that call it do not depend on that: the cleaned display
  name holds ASCII letters and digits only, and the comparison with \<^verbatim>\<open>!close\<close> can only
  succeed on a text of six ASCII bytes, as no code point outside ASCII has one of the
  letters c, l, o, s, e as its lower case.
\<close>

definition strings_ToLower :: "string \<Rightarrow> string" where
  "strings_ToLower s = map toLowerByte s"

fun strings_Contains :: "string \<Rightarrow> string \<Rightarrow> bool" where
  "strings_Contains [] substr = (substr = [])"
| "strings_Contains (c # cs) substr = (prefix substr (c # cs) \<or> strings_Contains cs substr)"

definition strings_HasPrefix :: "string \<Rightarrow> string \<Rightarrow> bool" where
  "strings_HasPrefix s p = prefix p s"

definition strings_TrimPrefix :: "string \<Rightarrow> string \<Rightarrow> string" where
  "strings_TrimPrefix s p = (if strings_HasPrefix s p then drop (length p) s else s)"

section \<open>Data\<close>

record User =
  user_ID :: string
  user_Username :: string
  user_AvatarURL :: string  \<comment> \<open>what \<^verbatim>\<open>AvatarURL("")\<close> returns for this user\<close>

definition Mention :: "User \<Rightarrow> string" where
  "Mention u = ''<@'' @ user_ID u @ ''>''"

record MessageAttachment =
  att_URL :: string

record Message =
  m_ID :: string
  m_ChannelID :: string
  m_GuildID :: string
  m_Author :: User
  m_Content :: string
  m_Attachments :: "MessageAttachment list"

record Channel =
  ch_ID :: string
  ch_GuildID :: string
  ch_ParentID :: string
  ch_Name :: string
  ch_Topic :: string

datatype ChannelType = ChannelTypeGuildText

record GuildChannelCreateData =
  Name :: string
  Type :: ChannelType
  ParentID :: string
  Topic :: string

record MessageEmbedAuthor =
  ea_Name :: string
  ea_IconURL :: string

record MessageEmbedImage =
  img_URL :: string

record MessageEmbed =
  e_Title :: string
  e_Description :: string
  e_Color :: int
  e_Timestamp :: string
  e_Author :: "MessageEmbedAuthor option"
  e_Image :: "MessageEmbedImage option"

text \<open>The log entry; its \<^verbatim>\<open>_id\<close> is left empty by the program and assigned by the store.\<close>

record ModmailLog =
  UserID :: string
  Content :: string
  HasFile :: bool
  Timestamp :: nat
  Sender :: string

text \<open>The settings read from the environment that the handler uses.\<close>

record config =
  GuildID :: string
  CategoryID :: string

section \<open>The chat platform and the store\<close>

text \<open>
  The gateway client and the store driver are outside the repository. The handler is
  modelled against their interface: every request that changes something is recorded,
  in order, in a trace; the platform keeps the list of channels, in the order in which
  it lists them; whether a request fails, and the identifiers that the platform
  assigns, are given by the session of the run.
\<close>

datatype call =
    Call_GuildChannelCreateComplex string GuildChannelCreateData
  | Call_ChannelMessageSendEmbed string MessageEmbed
  | Call_ChannelMessageSend string string
  | Call_MessageReactionAdd string string string
  | Call_ChannelDelete string
  | Call_UserChannelCreate string
  | Call_InsertOne ModmailLog

record Session =
  State_User_ID :: string  \<comment> \<open>\<^verbatim>\<open>s.State.User.ID\<close>, the bot's own identifier\<close>
  State_Channel :: "string \<Rightarrow> Channel option"  \<comment> \<open>the client's channel cache\<close>
  GuildChannels_fails :: bool  \<comment> \<open>the listing request fails in this run\<close>
  Channel_fails :: bool  \<comment> \<open>the request for one channel's data fails in this run\<close>
  fails :: "call \<Rightarrow> bool"  \<comment> \<open>the requests that fail in this run\<close>
  newChannelID :: string  \<comment> \<open>the identifier given to a channel created in this run\<close>
  dmChannelID :: "string \<Rightarrow> string"  \<comment> \<open>the direct-message channel of a user\<close>
  newMessageID :: "call \<Rightarrow> string"  \<comment> \<open>the identifier given to a message sent\<close>
  embedTime :: string  \<comment> \<open>\<^verbatim>\<open>time.Now().Format(time.RFC3339)\<close>\<close>
  logTime :: nat  \<comment> \<open>\<^verbatim>\<open>time.Now()\<close> as read by \<^verbatim>\<open>logToDB\<close>\<close>

record world =
  channels :: "Channel list"
  trace :: "call list"

datatype outcome = Returned | Panicked

definition request :: "call \<Rightarrow> world \<Rightarrow> world" where
  "request c w = w\<lparr>trace := trace w @ [c]\<rparr>"

definition GuildChannels :: "Session \<Rightarrow> string \<Rightarrow> world \<Rightarrow> Channel list option" where
  "GuildChannels s guildID w =
     (if GuildChannels_fails s then None
      else Some (filter (\<lambda>ch. ch_GuildID ch = guildID) (channels w)))"

definition Channel_get :: "Session \<Rightarrow> string \<Rightarrow> world \<Rightarrow> Channel option" where
  \<comment> \<open>\<^verbatim>\<open>s.Channel(channelID)\<close>\<close>
  "Channel_get s channelID w =
     (if Channel_fails s then None else find (\<lambda>ch. ch_ID ch = channelID) (channels w))"

definition GuildChannelCreateComplex ::
    "Session \<Rightarrow> string \<Rightarrow> GuildChannelCreateData \<Rightarrow> world \<Rightarrow> Channel option \<times> world" where
  "GuildChannelCreateComplex s guildID data w =
     (let c = Call_GuildChannelCreateComplex guildID data; w' = request c w
      in if fails s c then (None, w')
         else
           (let ch = \<lparr>ch_ID = newChannelID s, ch_GuildID = guildID, ch_ParentID = ParentID data,
                      ch_Name = Name data, ch_Topic = Topic data\<rparr>
            in (Some ch, w'\<lparr>channels := channels w' @ [ch]\<rparr>)))"

definition ChannelMessageSendEmbed ::
    "Session \<Rightarrow> string \<Rightarrow> MessageEmbed \<Rightarrow> world \<Rightarrow> string option \<times> world" where
  \<comment> \<open>the result is the identifier of the message sent, or nothing when the request fails\<close>
  "ChannelMessageSendEmbed s channelID emb w =
     (let c = Call_ChannelMessageSendEmbed channelID emb
      in (if fails s c then None else Some (newMessageID s c), request c w))"

definition ChannelMessageSend :: "Session \<Rightarrow> string \<Rightarrow> string \<Rightarrow> world \<Rightarrow> world" where
  \<comment> \<open>the program never reads the result\<close>
  "ChannelMessageSend s channelID content w = request (Call_ChannelMessageSend channelID content) w"

definition MessageReactionAdd :: "Session \<Rightarrow> string \<Rightarrow> string \<Rightarrow> string \<Rightarrow> world \<Rightarrow> world" where
  \<comment> \<open>the program never reads the result\<close>
  "MessageReactionAdd s channelID messageID emoji w =
     request (Call_MessageReactionAdd channelID messageID emoji) w"

definition ChannelDelete :: "Session \<Rightarrow> string \<Rightarrow> world \<Rightarrow> world" where
  \<comment> \<open>the program never reads the result\<close>
  "ChannelDelete s channelID w =
     (let c = Call_ChannelDelete channelID; w' = request c w
      in if fails s c then w'
         else w'\<lparr>channels := filter (\<lambda>ch. ch_ID ch \<noteq> channelID) (channels w')\<rparr>)"

definition UserChannelCreate :: "Session \<Rightarrow> string \<Rightarrow> world \<Rightarrow> Channel option \<times> world" where
  "UserChannelCreate s recipientID w =
     (let c = Call_UserChannelCreate recipientID
      in (if fails s c then None
          else Some \<lparr>ch_ID = dmChannelID s recipientID, ch_GuildID = [], ch_ParentID = [],
                     ch_Name = [], ch_Topic = []\<rparr>,
          request c w))"

definition InsertOne :: "Session \<Rightarrow> ModmailLog \<Rightarrow> world \<Rightarrow> world" where
  \<comment> \<open>the program never reads the result\<close>
  "InsertOne s entry w = request (Call_InsertOne entry) w"

section \<open>The program\<close>

definition logToDB :: "Session \<Rightarrow> string \<Rightarrow> string \<Rightarrow> string \<Rightarrow> bool \<Rightarrow> world \<Rightarrow> world" where
  "logToDB s uid content sender hasFile w =
     (let entry = \<lparr>UserID = uid, Content = content, HasFile = hasFile,
                   Timestamp = logTime s, Sender = sender\<rparr>
      in InsertOne s entry w)"


text \<open>
  The loop over the listed channels: the first channel whose topic contains the
  author's identifier, or nothing (\<^verbatim>\<open>targetChannel\<close> stays \<^verbatim>\<open>nil\<close>).
\<close>

fun findTarget :: "Channel list \<Rightarrow> string \<Rightarrow> Channel option" where
  "findTarget [] authorID = None"
| "findTarget (ch # chs) authorID =
     (if strings_Contains (ch_Topic ch) authorID then Some ch else findTarget chs authorID)"

definition channelName :: "User \<Rightarrow> string" where
  "channelName author =
     (let cleanName = strings_ToLower (reg_ReplaceAllString (user_Username author) [])
      in ''ticket-'' @ cleanName)"

definition firstImage :: "Message \<Rightarrow> MessageEmbedImage option" where
  \<comment> \<open>\<^verbatim>\<open>if len(m.Attachments) > 0 { embed.Image = ...{URL: m.Attachments[0].URL} }\<close>\<close>
  "firstImage m =
     (case m_Attachments m of [] \<Rightarrow> None | a # _ \<Rightarrow> Some \<lparr>img_URL = att_URL a\<rparr>)"

definition ticketData :: "config \<Rightarrow> User \<Rightarrow> GuildChannelCreateData" where
  "ticketData cfg author =
     \<lparr>Name = channelName author, Type = ChannelTypeGuildText, ParentID = CategoryID cfg,
      Topic = ''Modmail ID: '' @ user_ID author\<rparr>"

definition ticketCreatedEmbed :: "Session \<Rightarrow> MessageEmbed" where
  "ticketCreatedEmbed s =
     \<lparr>e_Title = [CHR 0xF0, CHR 0x9F, CHR 0x8E, CHR 0xAB] @ '' Ticket Created'',
      e_Description = ''Your message has been sent to the staff. Please wait for a response.'',
      e_Color = 0x2ecc71, e_Timestamp = embedTime s, e_Author = None, e_Image = None\<rparr>"

definition newTicketEmbed :: "User \<Rightarrow> MessageEmbed" where
  "newTicketEmbed author =
     \<lparr>e_Title = [CHR 0xF0, CHR 0x9F, CHR 0x86, CHR 0x95] @ '' New Ticket'',
      e_Description = ''User: '' @ Mention author,
      e_Color = 0x3498db, e_Timestamp = [], e_Author = None, e_Image = None\<rparr>"

definition userEmbed :: "Message \<Rightarrow> MessageEmbed" where
  \<comment> \<open>the embed that forwards a user's message into the ticket channel\<close>
  "userEmbed m =
     \<lparr>e_Title = [], e_Description = m_Content m, e_Color = 0x2ecc71, e_Timestamp = [],
      e_Author = Some \<lparr>ea_Name = user_Username (m_Author m),
                       ea_IconURL = user_AvatarURL (m_Author m)\<rparr>,
      e_Image = firstImage m\<rparr>"

definition staffEmbed :: "Message \<Rightarrow> MessageEmbed" where
  \<comment> \<open>the embed that forwards a staff message to the user\<close>
  "staffEmbed m =
     \<lparr>e_Title = [CHR 0xF0, CHR 0x9F, CHR 0x92, CHR 0xAC] @ '' Staff Response'',
      e_Description = m_Content m, e_Color = 0x3498db, e_Timestamp = [],
      e_Author = None, e_Image = firstImage m\<rparr>"

definition closedNotice :: string where
  "closedNotice = [CHR 0xF0, CHR 0x9F, CHR 0x94, CHR 0x92] @ '' Your ticket has been closed.''"

definition failedNotice :: string where
  "failedNotice = [CHR 0xE2, CHR 0x9D, CHR 0x8C] @ '' Failed to send DM (DMs might be closed).''"

definition checkMark :: string where
  "checkMark = [CHR 0xE2, CHR 0x9C, CHR 0x85]"

definition envelope :: string where
  "envelope = [CHR 0xF0, CHR 0x9F, CHR 0x93, CHR 0xA9]"

definition topicUserID :: "Channel \<Rightarrow> string" where
  \<comment> \<open>\<^verbatim>\<open>userID\<close>: the topic without the fixed prefix, empty when the prefix is absent\<close>
  "topicUserID ch =
     (if strings_HasPrefix (ch_Topic ch) ''Modmail ID: ''
      then strings_TrimPrefix (ch_Topic ch) ''Modmail ID: '' else [])"

subsection \<open>The handler, as the second listing of \<^verbatim>\<open>src/main.go\<close> has it\<close>

text \<open>
  \<^verbatim>\<open>src/main.go\<close> holds two listings of the program. The second one is the later
  revision (it adds the notice to the user, the reactions and the notice of a failed
  delivery) and is the one modelled as \<open>messageCreate\<close>; the first one follows as
  \<open>messageCreate_1\<close>. A third listing, \<^verbatim>\<open>src/unnamed/part_000\<close>, is an older program
  that relays every direct message into one log channel and has no ticket channels; the
  properties below are not about it.

  A call through a \<^verbatim>\<open>nil\<close> pointer (\<^verbatim>\<open>targetChannel.ID\<close> after a failed creation,
  \<^verbatim>\<open>dm.ID\<close> after a failed \<^verbatim>\<open>UserChannelCreate\<close> in the close command) panics; the run
  ends there with \<open>Panicked\<close>.
\<close>

definition forwardToStaffChannel :: "Session \<Rightarrow> Message \<Rightarrow> Channel \<Rightarrow> world \<Rightarrow> outcome \<times> world" where
  \<comment> \<open>from \<^verbatim>\<open>// Forward message to staff channel\<close> to the \<^verbatim>\<open>return\<close>\<close>
  "forwardToStaffChannel s m targetChannel w =
     (let (staffMsg, w1) = ChannelMessageSendEmbed s (ch_ID targetChannel) (userEmbed m) w;
          w2 = (case staffMsg of
                  Some staffMsgID \<Rightarrow> MessageReactionAdd s (ch_ID targetChannel) staffMsgID envelope w1
                | None \<Rightarrow> w1)
      in (Returned,
          logToDB s (user_ID (m_Author m)) (m_Content m) ''user'' (m_Attachments m \<noteq> []) w2))"

definition resolveChannel :: "Session \<Rightarrow> Message \<Rightarrow> world \<Rightarrow> Channel option" where
  \<comment> \<open>\<^verbatim>\<open>s.State.Channel\<close>, and \<^verbatim>\<open>s.Channel\<close> when the cache has no entry\<close>
  "resolveChannel s m w =
     (case State_Channel s (m_ChannelID m) of
        Some ch \<Rightarrow> Some ch
      | None \<Rightarrow> Channel_get s (m_ChannelID m) w)"

definition messageCreate :: "config \<Rightarrow> Session \<Rightarrow> Message \<Rightarrow> world \<Rightarrow> outcome \<times> world" where
  "messageCreate cfg s m w =
     (if user_ID (m_Author m) = State_User_ID s then (Returned, w)
      else if m_GuildID m = [] then
        (let chans = (case GuildChannels s (GuildID cfg) w of None \<Rightarrow> [] | Some chs \<Rightarrow> chs)
         in case findTarget chans (user_ID (m_Author m)) of
              Some targetChannel \<Rightarrow> forwardToStaffChannel s m targetChannel w
            | None \<Rightarrow>
                (let (created, w1) =
                       GuildChannelCreateComplex s (GuildID cfg) (ticketData cfg (m_Author m)) w;
                     (_, w2) = ChannelMessageSendEmbed s (m_ChannelID m) (ticketCreatedEmbed s) w1
                 in case created of
                      None \<Rightarrow> (Panicked, w2)
                    | Some targetChannel \<Rightarrow>
                        (let (_, w3) = ChannelMessageSendEmbed s (ch_ID targetChannel)
                                         (newTicketEmbed (m_Author m)) w2
                         in forwardToStaffChannel s m targetChannel w3)))
      else
        (case resolveChannel s m w of
           None \<Rightarrow> (Returned, w)
         | Some ch \<Rightarrow>
             if ch_ParentID ch \<noteq> CategoryID cfg \<or> \<not> strings_HasPrefix (ch_Name ch) ''ticket-''
             then (Returned, w)
             else
               (let userID = topicUserID ch
                in if userID = [] then (Returned, w)
                   else if strings_ToLower (m_Content m) = ''!close'' then
                     (let w1 = ChannelDelete s (m_ChannelID m) w;
                          (dm, w2) = UserChannelCreate s userID w1
                      in case dm of
                           None \<Rightarrow> (Panicked, w2)
                         | Some dmc \<Rightarrow> (Returned, ChannelMessageSend s (ch_ID dmc) closedNotice w2))
                   else
                     (let (dm, w1) = UserChannelCreate s userID w
                      in case dm of
                           None \<Rightarrow> (Returned, w1)
                         | Some dmc \<Rightarrow>
                             (let (sent, w2) = ChannelMessageSendEmbed s (ch_ID dmc) (staffEmbed m) w1
                              in case sent of
                                   Some _ \<Rightarrow>
                                     (Returned,
                                      logToDB s userID (m_Content m) ''staff'' (m_Attachments m \<noteq> [])
                                        (MessageReactionAdd s (m_ChannelID m) (m_ID m) checkMark w2))
                                 | None \<Rightarrow>
                                     (Returned,
                                      ChannelMessageSend s (m_ChannelID m) failedNotice w2))))))"

subsection \<open>The handler, as the first listing of \<^verbatim>\<open>src/main.go\<close> has it\<close>

text \<open>
  The earlier revision: no notice to the user on creation, no reaction on the forwarded
  message, the channel is fetched with \<^verbatim>\<open>s.Channel\<close> and checked against the guild
  instead of the category, and a failed delivery is not reported.
\<close>

definition messageCreate_1 :: "config \<Rightarrow> Session \<Rightarrow> Message \<Rightarrow> world \<Rightarrow> outcome \<times> world" where
  "messageCreate_1 cfg s m w =
     (if user_ID (m_Author m) = State_User_ID s then (Returned, w)
      else if m_GuildID m = [] then
        (let chans = (case GuildChannels s (GuildID cfg) w of None \<Rightarrow> [] | Some chs \<Rightarrow> chs)
         in case findTarget chans (user_ID (m_Author m)) of
              Some targetChannel \<Rightarrow>
                (let (_, w1) = ChannelMessageSendEmbed s (ch_ID targetChannel) (userEmbed m) w
                 in (Returned,
                     logToDB s (user_ID (m_Author m)) (m_Content m) ''user''
                       (m_Attachments m \<noteq> []) w1))
            | None \<Rightarrow>
                (let (created, w1) =
                       GuildChannelCreateComplex s (GuildID cfg) (ticketData cfg (m_Author m)) w
                 in case created of
                      None \<Rightarrow> (Panicked, w1)
                    | Some targetChannel \<Rightarrow>
                        (let (_, w2) = ChannelMessageSendEmbed s (ch_ID targetChannel)
                                         (newTicketEmbed (m_Author m)) w1;
                             (_, w3) = ChannelMessageSendEmbed s (ch_ID targetChannel)
                                         (userEmbed m) w2
                         in (Returned,
                             logToDB s (user_ID (m_Author m)) (m_Content m) ''user''
                               (m_Attachments m \<noteq> []) w3))))
      else
        (case Channel_get s (m_ChannelID m) w of
           None \<Rightarrow> (Returned, w)
         | Some ch \<Rightarrow>
             if ch_GuildID ch \<noteq> GuildID cfg \<or> \<not> strings_HasPrefix (ch_Name ch) ''ticket-''
             then (Returned, w)
             else
               (let userID = topicUserID ch
                in if userID = [] then (Returned, w)
                   else if strings_ToLower (m_Content m) = ''!close'' then
                     (let w1 = ChannelDelete s (m_ChannelID m) w;
                          (dm, w2) = UserChannelCreate s userID w1
                      in case dm of
                           None \<Rightarrow> (Panicked, w2)
                         | Some dmc \<Rightarrow> (Returned, ChannelMessageSend s (ch_ID dmc) closedNotice w2))
                   else
                     (let (dm, w1) = UserChannelCreate s userID w
                      in case dm of
                           None \<Rightarrow> (Returned, w1)
                         | Some dmc \<Rightarrow>
                             (let (sent, w2) = ChannelMessageSendEmbed s (ch_ID dmc) (staffEmbed m) w1
                              in case sent of
                                   Some _ \<Rightarrow>
                                     (Returned,
                                      logToDB s userID (m_Content m) ''staff'' (m_Attachments m \<noteq> [])
                                        (MessageReactionAdd s (m_ChannelID m) (m_ID m) checkMark w2))
                                 | None \<Rightarrow> (Returned, w2))))))"


definition newTicket :: "config \<Rightarrow> Session \<Rightarrow> User \<Rightarrow> Channel" where
  \<comment> \<open>the channel that a successful creation request of the handler adds to the platform\<close>
  "newTicket cfg s author =
     \<lparr>ch_ID = newChannelID s, ch_GuildID = GuildID cfg, ch_ParentID = CategoryID cfg,
      ch_Name = channelName author, ch_Topic = ''Modmail ID: '' @ user_ID author\<rparr>"

section \<open>Observing a run\<close>

definition issued :: "world \<Rightarrow> world \<Rightarrow> call list" where
  \<comment> \<open>the requests made between two states of the world\<close>
  "issued w w' = drop (length (trace w)) (trace w')"

definition delivered :: "Session \<Rightarrow> call list \<Rightarrow> call list" where
  \<comment> \<open>of the requests of a run, those that succeed\<close>
  "delivered s calls = filter (\<lambda>c. \<not> fails s c) calls"

fun isCreation :: "call \<Rightarrow> bool" where
  "isCreation (Call_GuildChannelCreateComplex _ _) = True"
| "isCreation _ = False"

fun isForward :: "Message \<Rightarrow> call \<Rightarrow> bool" where
  \<comment> \<open>a request that sends the embed carrying the user's message\<close>
  "isForward m (Call_ChannelMessageSendEmbed _ e) = (e = userEmbed m)"
| "isForward m _ = False"

fun isLogEntry :: "call \<Rightarrow> bool" where
  "isLogEntry (Call_InsertOne _) = True"
| "isLogEntry _ = False"

fun isUserNoticeOrReaction :: "Session \<Rightarrow> Message \<Rightarrow> call \<Rightarrow> bool" where
  \<comment> \<open>the requests that the second listing adds to the direct-message branch\<close>
  "isUserNoticeOrReaction s m (Call_ChannelMessageSendEmbed c e) = (e = ticketCreatedEmbed s)"
| "isUserNoticeOrReaction s m (Call_MessageReactionAdd _ _ emoji) = (emoji = envelope)"
| "isUserNoticeOrReaction s m _ = False"

definition userLogEntry :: "Session \<Rightarrow> Message \<Rightarrow> ModmailLog" where
  "userLogEntry s m =
     \<lparr>UserID = user_ID (m_Author m), Content = m_Content m, HasFile = (m_Attachments m \<noteq> []),
      Timestamp = logTime s, Sender = ''user''\<rparr>"

definition staffLogEntry :: "Session \<Rightarrow> string \<Rightarrow> Message \<Rightarrow> ModmailLog" where
  "staffLogEntry s userID m =
     \<lparr>UserID = userID, Content = m_Content m, HasFile = (m_Attachments m \<noteq> []),
      Timestamp = logTime s, Sender = ''staff''\<rparr>"

text \<open>
  The channel name in the words of the specification: the display name with all
  characters outside \<^verbatim>\<open>[A-Za-z0-9]\<close> removed and the remainder lower-cased, after
  \<^verbatim>\<open>ticket-\<close>.
\<close>

definition spec_channelName :: "string \<Rightarrow> string" where
  "spec_channelName displayName = ''ticket-'' @ map toLowerByte (filter isAlnum displayName)"

section \<open>Example runs\<close>

definition cfg0 :: config where
  "cfg0 = \<lparr>GuildID = ''G1'', CategoryID = ''CAT1''\<rparr>"

definition session0 :: Session where
  \<comment> \<open>empty cache, every request succeeds\<close>
  "session0 =
     \<lparr>State_User_ID = ''BOT'', State_Channel = (\<lambda>_. None), GuildChannels_fails = False,
      Channel_fails = False, fails = (\<lambda>_. False), newChannelID = ''C100'',
      dmChannelID = (\<lambda>u. ''DM-'' @ u), newMessageID = (\<lambda>_. ''M900''),
      embedTime = ''2024-01-01T00:00:00Z'', logTime = 0\<rparr>"

definition session1 :: Session where
  \<comment> \<open>as \<open>session0\<close>, for a later run: the platform assigns another channel identifier\<close>
  "session1 = session0\<lparr>newChannelID := ''C101''\<rparr>"

definition sessionListFails :: Session where
  "sessionListFails = session0\<lparr>GuildChannels_fails := True\<rparr>"

definition sessionCreateFails :: Session where
  \<comment> \<open>no channel can be created\<close>
  "sessionCreateFails = session0\<lparr>fails := isCreation\<rparr>"

definition sessionDMFails :: Session where
  \<comment> \<open>no direct-message channel can be opened\<close>
  "sessionDMFails = session0\<lparr>fails := (\<lambda>c. case c of Call_UserChannelCreate _ \<Rightarrow> True | _ \<Rightarrow> False)\<rparr>"

definition sessionSendFails :: Session where
  \<comment> \<open>no embed can be delivered\<close>
  "sessionSendFails =
     session0\<lparr>fails := (\<lambda>c. case c of Call_ChannelMessageSendEmbed _ _ \<Rightarrow> True | _ \<Rightarrow> False)\<rparr>"

definition bob :: User where
  "bob = \<lparr>user_ID = ''U1'', user_Username = ''Bob!'', user_AvatarURL = ''https://cdn/u1.png''\<rparr>"

definition bob2 :: User where
  \<comment> \<open>another user, whose cleaned display name is that of \<open>bob\<close>\<close>
  "bob2 = \<lparr>user_ID = ''U2'', user_Username = ''b.o.b'', user_AvatarURL = ''https://cdn/u2.png''\<rparr>"

definition ann :: User where
  "ann = \<lparr>user_ID = ''123456789012345678'', user_Username = ''Ann'',
          user_AvatarURL = ''https://cdn/ann.png''\<rparr>"

definition ben :: User where
  \<comment> \<open>a user whose identifier is the identifier of \<open>ann\<close> without its first digit\<close>
  "ben = \<lparr>user_ID = ''23456789012345678'', user_Username = ''Ben'',
          user_AvatarURL = ''https://cdn/ben.png''\<rparr>"

definition bang :: User where
  \<comment> \<open>a display name without any letter or digit\<close>
  "bang = \<lparr>user_ID = ''U3'', user_Username = ''?! _'', user_AvatarURL = ''https://cdn/u3.png''\<rparr>"

definition mod1 :: User where
  "mod1 = \<lparr>user_ID = ''S1'', user_Username = ''Mod'', user_AvatarURL = ''https://cdn/s1.png''\<rparr>"

definition dm :: "User \<Rightarrow> string \<Rightarrow> MessageAttachment list \<Rightarrow> Message" where
  \<comment> \<open>a direct message to the bot\<close>
  "dm author content atts =
     \<lparr>m_ID = ''M1'', m_ChannelID = ''DM-'' @ user_ID author, m_GuildID = [], m_Author = author,
      m_Content = content, m_Attachments = atts\<rparr>"

definition staffMessage :: "string \<Rightarrow> string \<Rightarrow> MessageAttachment list \<Rightarrow> Message" where
  \<comment> \<open>a message of a staff member in a channel of the guild\<close>
  "staffMessage channelID content atts =
     \<lparr>m_ID = ''M2'', m_ChannelID = channelID, m_GuildID = ''G1'', m_Author = mod1,
      m_Content = content, m_Attachments = atts\<rparr>"

definition ticketU1 :: Channel where
  "ticketU1 = \<lparr>ch_ID = ''C1'', ch_GuildID = ''G1'', ch_ParentID = ''CAT1'', ch_Name = ''ticket-bob'',
               ch_Topic = ''Modmail ID: U1''\<rparr>"

definition lounge :: Channel where
  \<comment> \<open>a channel of the guild outside the ticket category\<close>
  "lounge = \<lparr>ch_ID = ''C2'', ch_GuildID = ''G1'', ch_ParentID = ''CAT9'', ch_Name = ''ticket-talk'',
             ch_Topic = ''Modmail ID: U7''\<rparr>"

definition noOwner :: Channel where
  \<comment> \<open>a channel of the ticket category whose topic is the bare prefix\<close>
  "noOwner = \<lparr>ch_ID = ''C3'', ch_GuildID = ''G1'', ch_ParentID = ''CAT1'', ch_Name = ''ticket-'',
              ch_Topic = ''Modmail ID: ''\<rparr>"

definition world0 :: world where
  "world0 = \<lparr>channels = [], trace = []\<rparr>"

definition world1 :: world where
  "world1 = \<lparr>channels = [ticketU1, lounge, noOwner], trace = []\<rparr>"

definition picture :: MessageAttachment where
  "picture = \<lparr>att_URL = ''https://cdn/p.png''\<rparr>"

section \<open>Strings and the scan\<close>

lemma filter_dropWhile_not: "filter P (dropWhile (\<lambda>x. \<not> P x) xs) = filter P xs"
  by (induction xs) auto

lemma reg_ReplaceAllString_empty: "reg_ReplaceAllString src [] = filter isAlnum src"
  by (induction src "[] :: string" rule: reg_ReplaceAllString.induct)
     (simp_all add: filter_dropWhile_not)

lemma strings_Contains_iff: "strings_Contains s sub \<longleftrightarrow> (\<exists>ps ss. s = ps @ sub @ ss)"
proof (induction s)
  case Nil
  then show ?case by auto
next
  case (Cons c cs)
  show ?case
  proof
    assume "strings_Contains (c # cs) sub"
    then consider "prefix sub (c # cs)" | "strings_Contains cs sub" by auto
    then show "\<exists>ps ss. c # cs = ps @ sub @ ss"
    proof cases
      case 1
      then obtain ss where "c # cs = sub @ ss" by (auto simp: prefix_def)
      then have "c # cs = [] @ sub @ ss" by simp
      then show ?thesis by blast
    next
      case 2
      with Cons.IH obtain ps ss where "cs = ps @ sub @ ss" by blast
      then have "c # cs = (c # ps) @ sub @ ss" by simp
      then show ?thesis by blast
    qed
  next
    assume "\<exists>ps ss. c # cs = ps @ sub @ ss"
    then obtain ps ss where eq: "c # cs = ps @ sub @ ss" by blast
    show "strings_Contains (c # cs) sub"
    proof (cases ps)
      case Nil
      with eq have "prefix sub (c # cs)" by (auto simp: prefix_def)
      then show ?thesis by simp
    next
      case (Cons p ps')
      with eq have "cs = ps' @ sub @ ss" by simp
      with Cons.IH have "strings_Contains cs sub" by blast
      then show ?thesis by simp
    qed
  qed
qed

lemma strings_Contains_suffix: "strings_Contains (p @ u) u"
  unfolding strings_Contains_iff by (rule exI [of _ p], rule exI [of _ "[]"]) simp

lemma findTarget_Some:
  "findTarget chs u = Some tc \<Longrightarrow> tc \<in> set chs \<and> strings_Contains (ch_Topic tc) u"
  by (induction chs) (auto split: if_splits)

lemma findTarget_None: "findTarget chs u = None \<longleftrightarrow> (\<forall>ch\<in>set chs. \<not> strings_Contains (ch_Topic ch) u)"
  by (induction chs) auto

lemma findTarget_find: "findTarget chs u = find (\<lambda>ch. strings_Contains (ch_Topic ch) u) chs"
  by (induction chs) auto

section \<open>The requests of each path of the handler\<close>

lemma issued_self [simp]: "issued w w = []"
  by (simp add: issued_def)

lemma issued_append [simp]: "issued w (w'\<lparr>trace := trace w @ xs\<rparr>) = xs"
  by (simp add: issued_def)

lemma count_list_delivered:
  "count_list (delivered s calls) c = (if fails s c then 0 else count_list calls c)"
  by (induction calls) (auto simp: delivered_def)

lemma listed_ok:
  "\<not> GuildChannels_fails s \<Longrightarrow>
   (case GuildChannels s g w of None \<Rightarrow> [] | Some chs \<Rightarrow> chs) = filter (\<lambda>c. ch_GuildID c = g) (channels w)"
  by (simp add: GuildChannels_def)

lemma findTarget_exists:
  "ch \<in> set chs \<Longrightarrow> strings_Contains (ch_Topic ch) u \<Longrightarrow> \<exists>tc. findTarget chs u = Some tc"
  by (cases "findTarget chs u") (auto simp: findTarget_None)

lemmas api_defs = request_def GuildChannels_def Channel_get_def GuildChannelCreateComplex_def
  ChannelMessageSendEmbed_def ChannelMessageSend_def MessageReactionAdd_def ChannelDelete_def
  UserChannelCreate_def InsertOne_def logToDB_def

lemma forwardToStaffChannel_eq:
  "forwardToStaffChannel s m tc w =
     (Returned, w\<lparr>trace := trace w @
        Call_ChannelMessageSendEmbed (ch_ID tc) (userEmbed m) #
        (if fails s (Call_ChannelMessageSendEmbed (ch_ID tc) (userEmbed m)) then []
         else [Call_MessageReactionAdd (ch_ID tc)
                 (newMessageID s (Call_ChannelMessageSendEmbed (ch_ID tc) (userEmbed m))) envelope]) @
        [Call_InsertOne (userLogEntry s m)]\<rparr>)"
  by (simp add: forwardToStaffChannel_def api_defs userLogEntry_def Let_def)

lemma messageCreate_self:
  "user_ID (m_Author m) = State_User_ID s \<Longrightarrow> messageCreate cfg s m w = (Returned, w)"
  by (simp add: messageCreate_def)

lemma dm_found:
  assumes "m_GuildID m = []" "user_ID (m_Author m) \<noteq> State_User_ID s"
    and "findTarget (case GuildChannels s (GuildID cfg) w of None \<Rightarrow> [] | Some chs \<Rightarrow> chs) (user_ID (m_Author m)) = Some tc"
  shows "messageCreate cfg s m w = forwardToStaffChannel s m tc w"
  using assms by (simp add: messageCreate_def)

lemma dm_create_fails:
  assumes "m_GuildID m = []" "user_ID (m_Author m) \<noteq> State_User_ID s"
    and "findTarget (case GuildChannels s (GuildID cfg) w of None \<Rightarrow> [] | Some chs \<Rightarrow> chs) (user_ID (m_Author m)) = None"
    and "fails s (Call_GuildChannelCreateComplex (GuildID cfg) (ticketData cfg (m_Author m)))"
  shows "messageCreate cfg s m w =
     (Panicked, w\<lparr>trace := trace w @
        [Call_GuildChannelCreateComplex (GuildID cfg) (ticketData cfg (m_Author m)),
         Call_ChannelMessageSendEmbed (m_ChannelID m) (ticketCreatedEmbed s)]\<rparr>)"
  using assms by (simp add: messageCreate_def GuildChannelCreateComplex_def ChannelMessageSendEmbed_def request_def Let_def)

lemma dm_create_ok:
  assumes "m_GuildID m = []" "user_ID (m_Author m) \<noteq> State_User_ID s"
    and "findTarget (case GuildChannels s (GuildID cfg) w of None \<Rightarrow> [] | Some chs \<Rightarrow> chs) (user_ID (m_Author m)) = None"
    and "\<not> fails s (Call_GuildChannelCreateComplex (GuildID cfg) (ticketData cfg (m_Author m)))"
  shows "messageCreate cfg s m w =
     (Returned, w\<lparr>channels := channels w @ [newTicket cfg s (m_Author m)],
        trace := trace w @
        [Call_GuildChannelCreateComplex (GuildID cfg) (ticketData cfg (m_Author m)),
         Call_ChannelMessageSendEmbed (m_ChannelID m) (ticketCreatedEmbed s),
         Call_ChannelMessageSendEmbed (newChannelID s) (newTicketEmbed (m_Author m)),
         Call_ChannelMessageSendEmbed (newChannelID s) (userEmbed m)] @
        (if fails s (Call_ChannelMessageSendEmbed (newChannelID s) (userEmbed m)) then []
         else [Call_MessageReactionAdd (newChannelID s)
                 (newMessageID s (Call_ChannelMessageSendEmbed (newChannelID s) (userEmbed m))) envelope]) @
        [Call_InsertOne (userLogEntry s m)]\<rparr>)"
  using assms by (simp add: messageCreate_def forwardToStaffChannel_eq GuildChannelCreateComplex_def ChannelMessageSendEmbed_def request_def Let_def newTicket_def ticketData_def)

lemma userEmbed_distinct [simp]:
  "ticketCreatedEmbed s \<noteq> userEmbed m" "newTicketEmbed a \<noteq> userEmbed m"
  by (simp_all add: ticketCreatedEmbed_def newTicketEmbed_def userEmbed_def)

lemma ticketCreatedEmbed_distinct [simp]:
  "userEmbed m \<noteq> ticketCreatedEmbed s" "newTicketEmbed a \<noteq> ticketCreatedEmbed s"
  by (simp_all add: ticketCreatedEmbed_def newTicketEmbed_def userEmbed_def)

lemma listed_subset:
  "set (case GuildChannels s g w of None \<Rightarrow> [] | Some chs \<Rightarrow> chs) \<subseteq> set (channels w)"
  by (auto simp: GuildChannels_def)

lemma dm_step:
  assumes dm: "m_GuildID m = []" and other: "user_ID (m_Author m) \<noteq> State_User_ID s"
    and run: "messageCreate cfg s m w = (Returned, w')"
  shows "\<exists>tc. tc \<in> set (channels w') \<and> strings_Contains (ch_Topic tc) (user_ID (m_Author m))
     \<and> filter (isForward m) (issued w w') = [Call_ChannelMessageSendEmbed (ch_ID tc) (userEmbed m)]
     \<and> (channels w' = channels w
          \<or> channels w' = channels w @ [tc] \<and> tc = newTicket cfg s (m_Author m))"
proof (cases "findTarget (case GuildChannels s (GuildID cfg) w of None \<Rightarrow> [] | Some chs \<Rightarrow> chs)
                 (user_ID (m_Author m))")
  case (Some tc)
  then have "tc \<in> set (channels w)" "strings_Contains (ch_Topic tc) (user_ID (m_Author m))"
    using findTarget_Some listed_subset by blast+
  moreover have "w' = snd (forwardToStaffChannel s m tc w)"
    using run by (simp add: dm_found [OF dm other Some])
  ultimately show ?thesis
    by (intro exI [of _ tc]) (simp add: forwardToStaffChannel_eq)
next
  case None
  show ?thesis
  proof (cases "fails s (Call_GuildChannelCreateComplex (GuildID cfg) (ticketData cfg (m_Author m)))")
    case True
    with run show ?thesis by (simp add: dm_create_fails [OF dm other None True])
  next
    case False
    have "strings_Contains (ch_Topic (newTicket cfg s (m_Author m))) (user_ID (m_Author m))"
      using strings_Contains_suffix [of "''Modmail ID: ''" "user_ID (m_Author m)"]
      by (simp add: newTicket_def)
    moreover have "w' = snd (messageCreate cfg s m w)" using run by simp
    ultimately show ?thesis
      by (intro exI [of _ "newTicket cfg s (m_Author m)"])
         (simp add: dm_create_ok [OF dm other None False], simp add: newTicket_def)
  qed
qed

lemma guild_rejected:
  assumes "m_GuildID m \<noteq> []"
    and "\<forall>ch. resolveChannel s m w = Some ch \<longrightarrow>
           ch_ParentID ch \<noteq> CategoryID cfg \<or> \<not> strings_HasPrefix (ch_Name ch) ''ticket-''"
  shows "messageCreate cfg s m w = (Returned, w)"
  using assms by (auto simp: messageCreate_def split: option.splits)

lemma guild_no_owner:
  assumes "m_GuildID m \<noteq> []" and "resolveChannel s m w = Some ch" and "topicUserID ch = []"
  shows "messageCreate cfg s m w = (Returned, w)"
  using assms by (simp add: messageCreate_def)

lemma guild_close:
  assumes "m_GuildID m \<noteq> []" and "user_ID (m_Author m) \<noteq> State_User_ID s"
    and "resolveChannel s m w = Some ch"
    and "ch_ParentID ch = CategoryID cfg" and "strings_HasPrefix (ch_Name ch) ''ticket-''"
    and "topicUserID ch \<noteq> []"
    and "strings_ToLower (m_Content m) = ''!close''"
  shows "messageCreate cfg s m w =
     (if fails s (Call_UserChannelCreate (topicUserID ch)) then Panicked else Returned,
      w\<lparr>channels := (if fails s (Call_ChannelDelete (m_ChannelID m)) then channels w
                       else filter (\<lambda>c. ch_ID c \<noteq> m_ChannelID m) (channels w)),
         trace := trace w @
           [Call_ChannelDelete (m_ChannelID m), Call_UserChannelCreate (topicUserID ch)] @
           (if fails s (Call_UserChannelCreate (topicUserID ch)) then []
            else [Call_ChannelMessageSend (dmChannelID s (topicUserID ch)) closedNotice])\<rparr>)"
  using assms by (simp add: messageCreate_def api_defs Let_def)

lemma guild_forward:
  assumes "m_GuildID m \<noteq> []" and "user_ID (m_Author m) \<noteq> State_User_ID s"
    and "resolveChannel s m w = Some ch"
    and "ch_ParentID ch = CategoryID cfg" and "strings_HasPrefix (ch_Name ch) ''ticket-''"
    and "topicUserID ch \<noteq> []"
    and "strings_ToLower (m_Content m) \<noteq> ''!close''"
  shows "messageCreate cfg s m w =
     (Returned,
      w\<lparr>trace := trace w @
           Call_UserChannelCreate (topicUserID ch) #
           (if fails s (Call_UserChannelCreate (topicUserID ch)) then []
            else Call_ChannelMessageSendEmbed (dmChannelID s (topicUserID ch)) (staffEmbed m) #
              (if fails s (Call_ChannelMessageSendEmbed (dmChannelID s (topicUserID ch)) (staffEmbed m))
               then [Call_ChannelMessageSend (m_ChannelID m) failedNotice]
               else [Call_MessageReactionAdd (m_ChannelID m) (m_ID m) checkMark,
                     Call_InsertOne (staffLogEntry s (topicUserID ch) m)]))\<rparr>)"
  using assms by (simp add: messageCreate_def api_defs Let_def staffLogEntry_def)

lemma topicUserID_owner: "ch_Topic ch = ''Modmail ID: '' @ userID \<Longrightarrow> topicUserID ch = userID"
  by (simp add: topicUserID_def strings_HasPrefix_def strings_TrimPrefix_def)

section \<open>Facts about the example runs\<close>

lemma dm_basic:
  "m_GuildID (dm a text atts) = []"
  "m_Author (dm a text atts) = a"
  "m_Content (dm a text atts) = text"
  "m_Attachments (dm a text atts) = atts"
  "m_ChannelID (dm a text atts) = ''DM-'' @ user_ID a"
  by (simp_all add: dm_def)

lemma dm_other:
  "user_ID (m_Author (dm bob text atts)) \<noteq> State_User_ID session0"
  "user_ID (m_Author (dm bob2 text atts)) \<noteq> State_User_ID session1"
  "user_ID (m_Author (dm ann text atts)) \<noteq> State_User_ID session0"
  "user_ID (m_Author (dm ben text atts)) \<noteq> State_User_ID session1"
  by (simp_all add: dm_def bob_def bob2_def ann_def ben_def session0_def session1_def)

lemma staffMessage_basic:
  "m_GuildID (staffMessage c text atts) \<noteq> []"
  "user_ID (m_Author (staffMessage c text atts)) \<noteq> State_User_ID session0"
  "m_ChannelID (staffMessage c text atts) = c"
  "m_Content (staffMessage c text atts) = text"
  "m_Attachments (staffMessage c text atts) = atts"
  "m_ID (staffMessage c text atts) = ''M2''"
  by (simp_all add: staffMessage_def mod1_def session0_def)

lemma resolve_C1: "resolveChannel session0 (staffMessage ''C1'' text atts) world1 = Some ticketU1"
  by (simp add: resolveChannel_def session0_def staffMessage_def Channel_get_def world1_def
      ticketU1_def)

lemma topicUserID_ticketU1: "topicUserID ticketU1 = ''U1''"
  by (simp add: topicUserID_def ticketU1_def strings_HasPrefix_def strings_TrimPrefix_def)

lemma ticketU1_valid:
  "ch_ParentID ticketU1 = CategoryID cfg0" "strings_HasPrefix (ch_Name ticketU1) ''ticket-''"
  by (simp_all add: ticketU1_def cfg0_def strings_HasPrefix_def)

lemma not_close: "strings_ToLower ''Hi Bob'' \<noteq> ''!close''"
  by code_simp


lemma staff_other:
  "user_ID (m_Author (staffMessage c text atts)) \<noteq> State_User_ID sessionSendFails"
  "user_ID (m_Author (staffMessage c text atts)) \<noteq> State_User_ID sessionDMFails"
  by (simp_all add: staffMessage_def mod1_def sessionSendFails_def sessionDMFails_def session0_def)

lemma resolve_C1_fails:
  "resolveChannel sessionSendFails (staffMessage ''C1'' text atts) world1 = Some ticketU1"
  "resolveChannel sessionDMFails (staffMessage ''C1'' text atts) world1 = Some ticketU1"
  by (simp_all add: resolveChannel_def sessionSendFails_def sessionDMFails_def session0_def
      staffMessage_def Channel_get_def world1_def ticketU1_def)

lemma channelName_bob: "channelName bob = ''ticket-bob''"
  by code_simp

lemma first_ticket:
  assumes "user_ID (m_Author (dm a text atts)) \<noteq> State_User_ID session0"
  shows "messageCreate cfg0 session0 (dm a text atts) world0 =
           (Returned, snd (messageCreate cfg0 session0 (dm a text atts) world0))"
    and "channels (snd (messageCreate cfg0 session0 (dm a text atts) world0))
           = [newTicket cfg0 session0 a]"
    and "filter (isForward (dm a text atts))
           (issued world0 (snd (messageCreate cfg0 session0 (dm a text atts) world0)))
           = [Call_ChannelMessageSendEmbed ''C100'' (userEmbed (dm a text atts))]"
proof -
  let ?m = "dm a text atts"
  have n: "findTarget (case GuildChannels session0 (GuildID cfg0) world0 of None \<Rightarrow> [] | Some chs \<Rightarrow> chs)
             (user_ID (m_Author ?m)) = None"
    by (simp add: GuildChannels_def world0_def split: option.splits)
  have f: "\<not> fails session0 (Call_GuildChannelCreateComplex (GuildID cfg0) (ticketData cfg0 (m_Author ?m)))"
    by (simp add: session0_def)
  note run = dm_create_ok [OF dm_basic(1) assms n f]
  show "messageCreate cfg0 session0 ?m world0 = (Returned, snd (messageCreate cfg0 session0 ?m world0))"
    by (simp add: run)
  show "channels (snd (messageCreate cfg0 session0 ?m world0)) = [newTicket cfg0 session0 a]"
    by (simp add: run dm_basic) (simp add: world0_def)
  show "filter (isForward ?m) (issued world0 (snd (messageCreate cfg0 session0 ?m world0)))
           = [Call_ChannelMessageSendEmbed ''C100'' (userEmbed ?m)]"
    by (simp add: run) (simp add: session0_def)
qed

section \<open>The channel name\<close>

lemma channelName_spec: "channelName author = spec_channelName (user_Username author)"
  by (simp add: channelName_def spec_channelName_def strings_ToLower_def reg_ReplaceAllString_empty)

text \<open>
  C8. The name of a ticket channel is \<^verbatim>\<open>ticket-\<close> followed by the display name with all
  characters outside \<^verbatim>\<open>[A-Za-z0-9]\<close> removed and the rest lower-cased; it is the name
  that the creation request carries; a display name without any letter or digit gives
  exactly \<^verbatim>\<open>ticket-\<close>, nothing is appended to make it unique.
\<close>

theorem C8_channel_name:
  "channelName author = spec_channelName (user_Username author)
   \<and> Name (ticketData cfg author) = spec_channelName (user_Username author)
   \<and> ((\<forall>c\<in>set (user_Username author). \<not> isAlnum c) \<longrightarrow> channelName author = ''ticket-'')"
  by (simp add: channelName_spec ticketData_def spec_channelName_def filter_empty_conv)

theorem C8_channel_name_witness:
  "list_all (\<lambda>c. \<not> isAlnum c) (user_Username bang) \<and> channelName bang = ''ticket-''
   \<and> channelName bob = ''ticket-bob'' \<and> Name (ticketData cfg0 bob) = ''ticket-bob''"
proof -
  have h: "\<forall>c\<in>set (user_Username bang). \<not> isAlnum c"
    by (simp add: bang_def isAlnum_def)
  have e: "spec_channelName (user_Username bob) = ''ticket-bob''"
    by code_simp
  from C8_channel_name [of bang cfg0] h have "channelName bang = ''ticket-''" by blast
  moreover from C8_channel_name [of bob cfg0] e
  have "channelName bob = ''ticket-bob''" "Name (ticketData cfg0 bob) = ''ticket-bob''"
    by simp_all
  ultimately show ?thesis using h by (simp add: list_all_iff)
qed

section \<open>Direct messages\<close>

text \<open>
  C1, as the program has it. When the listing request succeeds and some channel of the
  guild has a topic that contains the author's identifier, a direct message of that
  author is forwarded into the first such channel of the listing (the one existing
  ticket, when there is only one), no creation request is made and the channels of the
  guild stay as they are.
\<close>

theorem C1_existing_ticket_reused:
  assumes dm: "m_GuildID m = []" and other: "user_ID (m_Author m) \<noteq> State_User_ID s"
    and listing: "\<not> GuildChannels_fails s"
    and ch: "ch \<in> set (channels w)" "ch_GuildID ch = GuildID cfg"
      "strings_Contains (ch_Topic ch) (user_ID (m_Author m))"
  shows "\<exists>tc. findTarget (filter (\<lambda>c. ch_GuildID c = GuildID cfg) (channels w))
                 (user_ID (m_Author m)) = Some tc
     \<and> tc \<in> set (channels w) \<and> ch_GuildID tc = GuildID cfg
     \<and> strings_Contains (ch_Topic tc) (user_ID (m_Author m))
     \<and> ((\<forall>c\<in>set (channels w). ch_GuildID c = GuildID cfg
            \<and> strings_Contains (ch_Topic c) (user_ID (m_Author m)) \<longrightarrow> c = ch) \<longrightarrow> tc = ch)
     \<and> fst (messageCreate cfg s m w) = Returned
     \<and> channels (snd (messageCreate cfg s m w)) = channels w
     \<and> filter isCreation (issued w (snd (messageCreate cfg s m w))) = []
     \<and> filter (isForward m) (issued w (snd (messageCreate cfg s m w)))
         = [Call_ChannelMessageSendEmbed (ch_ID tc) (userEmbed m)]"
proof -
  let ?chs = "filter (\<lambda>c. ch_GuildID c = GuildID cfg) (channels w)"
  let ?u = "user_ID (m_Author m)"
  from ch have "ch \<in> set ?chs" by simp
  with ch(3) obtain tc where tc: "findTarget ?chs ?u = Some tc"
    using findTarget_exists by blast
  then have mem: "tc \<in> set ?chs" and topic: "strings_Contains (ch_Topic tc) ?u"
    using findTarget_Some by blast+
  have run: "messageCreate cfg s m w = forwardToStaffChannel s m tc w"
    using dm other tc by (simp add: dm_found listed_ok [OF listing])
  have "fst (messageCreate cfg s m w) = Returned"
    "channels (snd (messageCreate cfg s m w)) = channels w"
    "filter isCreation (issued w (snd (messageCreate cfg s m w))) = []"
    "filter (isForward m) (issued w (snd (messageCreate cfg s m w)))
       = [Call_ChannelMessageSendEmbed (ch_ID tc) (userEmbed m)]"
    by (simp_all add: run forwardToStaffChannel_eq)
  with tc mem topic show ?thesis by auto
qed

theorem C1_existing_ticket_reused_witness:
  "m_GuildID (dm bob ''Hello'' []) = []
   \<and> user_ID (m_Author (dm bob ''Hello'' [])) \<noteq> State_User_ID session0
   \<and> \<not> GuildChannels_fails session0
   \<and> ticketU1 \<in> set (channels world1) \<and> ch_GuildID ticketU1 = GuildID cfg0
   \<and> strings_Contains (ch_Topic ticketU1) (user_ID (m_Author (dm bob ''Hello'' [])))
   \<and> fst (messageCreate cfg0 session0 (dm bob ''Hello'' []) world1) = Returned
   \<and> channels (snd (messageCreate cfg0 session0 (dm bob ''Hello'' []) world1)) = channels world1
   \<and> filter isCreation (issued world1 (snd (messageCreate cfg0 session0 (dm bob ''Hello'' []) world1))) = []
   \<and> filter (isForward (dm bob ''Hello'' []))
        (issued world1 (snd (messageCreate cfg0 session0 (dm bob ''Hello'' []) world1)))
       = [Call_ChannelMessageSendEmbed ''C1'' (userEmbed (dm bob ''Hello'' []))]"
proof -
  have h1: "m_GuildID (dm bob ''Hello'' []) = []" by (simp add: dm_def)
  have h2: "user_ID (m_Author (dm bob ''Hello'' [])) \<noteq> State_User_ID session0"
    by (simp add: dm_def bob_def session0_def)
  have h3: "\<not> GuildChannels_fails session0" by (simp add: session0_def)
  have h4: "ticketU1 \<in> set (channels world1)" by (simp add: world1_def)
  have h5: "ch_GuildID ticketU1 = GuildID cfg0" by (simp add: ticketU1_def cfg0_def)
  have h6: "strings_Contains (ch_Topic ticketU1) (user_ID (m_Author (dm bob ''Hello'' [])))"
    by (simp add: ticketU1_def dm_def bob_def)
  have found: "findTarget (filter (\<lambda>c. ch_GuildID c = GuildID cfg0) (channels world1))
                 (user_ID (m_Author (dm bob ''Hello'' []))) = Some ticketU1"
    by (simp add: world1_def ticketU1_def lounge_def noOwner_def cfg0_def dm_def bob_def)
  from C1_existing_ticket_reused [OF h1 h2 h3 h4 h5 h6] found
  have "fst (messageCreate cfg0 session0 (dm bob ''Hello'' []) world1) = Returned
   \<and> channels (snd (messageCreate cfg0 session0 (dm bob ''Hello'' []) world1)) = channels world1
   \<and> filter isCreation (issued world1 (snd (messageCreate cfg0 session0 (dm bob ''Hello'' []) world1))) = []
   \<and> filter (isForward (dm bob ''Hello'' []))
        (issued world1 (snd (messageCreate cfg0 session0 (dm bob ''Hello'' []) world1)))
       = [Call_ChannelMessageSendEmbed (ch_ID ticketU1) (userEmbed (dm bob ''Hello'' []))]"
    by auto
  with h1 h2 h3 h4 h5 h6 show ?thesis by (simp add: ticketU1_def)
qed

text \<open>
  C1 fails as stated: the user \<open>U1\<close> has an open ticket, the listing request fails, the
  handler goes on with an empty list of channels and creates a second channel for the
  same user.
\<close>

theorem C1_counterexample:
  "m_GuildID (dm bob ''Hello'' []) = []
   \<and> user_ID (m_Author (dm bob ''Hello'' [])) \<noteq> State_User_ID sessionListFails
   \<and> ticketU1 \<in> set (channels world1) \<and> ch_GuildID ticketU1 = GuildID cfg0
   \<and> strings_Contains (ch_Topic ticketU1) (user_ID (m_Author (dm bob ''Hello'' [])))
   \<and> filter isCreation
        (issued world1 (snd (messageCreate cfg0 sessionListFails (dm bob ''Hello'' []) world1)))
       = [Call_GuildChannelCreateComplex ''G1'' (ticketData cfg0 bob)]
   \<and> filter (isForward (dm bob ''Hello'' []))
        (issued world1 (snd (messageCreate cfg0 sessionListFails (dm bob ''Hello'' []) world1)))
       = [Call_ChannelMessageSendEmbed ''C100'' (userEmbed (dm bob ''Hello'' []))]
   \<and> channels (snd (messageCreate cfg0 sessionListFails (dm bob ''Hello'' []) world1))
       = [ticketU1, lounge, noOwner, newTicket cfg0 sessionListFails bob]"
proof -
  have h1: "m_GuildID (dm bob ''Hello'' []) = []" by (simp add: dm_def)
  have h2: "user_ID (m_Author (dm bob ''Hello'' [])) \<noteq> State_User_ID sessionListFails"
    by (simp add: dm_def bob_def session0_def sessionListFails_def)
  have h3: "findTarget (case GuildChannels sessionListFails (GuildID cfg0) world1 of None \<Rightarrow> [] | Some chs \<Rightarrow> chs)
     (user_ID (m_Author (dm bob ''Hello'' []))) = None"
    by (simp add: GuildChannels_def sessionListFails_def)
  have h4: "\<not> fails sessionListFails (Call_GuildChannelCreateComplex (GuildID cfg0) (ticketData cfg0 (m_Author (dm bob ''Hello'' []))))"
    by (simp add: sessionListFails_def session0_def)
  have h6: "strings_Contains (ch_Topic ticketU1) (user_ID (m_Author (dm bob ''Hello'' [])))"
    by (simp add: ticketU1_def dm_def bob_def)
  have m: "m_Author (dm bob ''Hello'' []) = bob" by (simp add: dm_def)
  have t: "ticketCreatedEmbed sessionListFails \<noteq> userEmbed (dm bob ''Hello'' [])"
      "newTicketEmbed bob \<noteq> userEmbed (dm bob ''Hello'' [])"
    by (simp_all add: ticketCreatedEmbed_def userEmbed_def newTicketEmbed_def)
  note run = dm_create_ok [OF h1 h2 h3 h4]
  have c1: "filter isCreation
        (issued world1 (snd (messageCreate cfg0 sessionListFails (dm bob ''Hello'' []) world1)))
       = [Call_GuildChannelCreateComplex ''G1'' (ticketData cfg0 bob)]"
    by (simp add: run m) (simp add: cfg0_def)
  have c2: "filter (isForward (dm bob ''Hello'' []))
        (issued world1 (snd (messageCreate cfg0 sessionListFails (dm bob ''Hello'' []) world1)))
       = [Call_ChannelMessageSendEmbed ''C100'' (userEmbed (dm bob ''Hello'' []))]"
    using t by (simp add: run m) (simp add: sessionListFails_def session0_def)
  have c3: "channels (snd (messageCreate cfg0 sessionListFails (dm bob ''Hello'' []) world1))
       = [ticketU1, lounge, noOwner, newTicket cfg0 sessionListFails bob]"
    by (simp add: run m) (simp add: world1_def)
  have h4': "ticketU1 \<in> set (channels world1)" by (simp add: world1_def)
  have h5: "ch_GuildID ticketU1 = GuildID cfg0" by (simp add: ticketU1_def cfg0_def)
  from h1 h2 h4' h5 h6 c1 c2 c3 show ?thesis by blast
qed

text \<open>
  C2, as the program has it. A direct message of an author other than the bot, when the
  scan finds a channel, is forwarded into that channel and no channel is created; when
  the scan finds none and the creation request succeeds, exactly one channel is created
  (name, category and topic as in the request) and added to the guild, the user and the
  staff are told so, and the message is forwarded into the new channel. In both cases
  the handler makes exactly one request that carries the message (its text, the name and
  avatar of the author, the first attachment as image) to that channel; the message
  arrives there once when that request succeeds and not at all when it fails; and
  exactly one log entry with sender \<^verbatim>\<open>user\<close> is inserted either way. Nothing is said
  about a creation request that fails.
\<close>

theorem C2_direct_message_flow:
  assumes dm: "m_GuildID m = []" and other: "user_ID (m_Author m) \<noteq> State_User_ID s"
  shows "let author = m_Author m;
             forward = (\<lambda>channelID. Call_ChannelMessageSendEmbed channelID
               \<lparr>e_Title = [], e_Description = m_Content m, e_Color = 0x2ecc71, e_Timestamp = [],
                e_Author = Some \<lparr>ea_Name = user_Username author,
                                 ea_IconURL = user_AvatarURL author\<rparr>,
                e_Image = (case m_Attachments m of [] \<Rightarrow> None
                           | a # _ \<Rightarrow> Some \<lparr>img_URL = att_URL a\<rparr>)\<rparr>);
             reaction = (\<lambda>channelID.
               if fails s (forward channelID) then []
               else [Call_MessageReactionAdd channelID (newMessageID s (forward channelID))
                       [CHR 0xF0, CHR 0x9F, CHR 0x93, CHR 0xA9]]);
             entry = Call_InsertOne
               \<lparr>UserID = user_ID author, Content = m_Content m,
                HasFile = (m_Attachments m \<noteq> []), Timestamp = logTime s, Sender = ''user''\<rparr>;
             creation = Call_GuildChannelCreateComplex (GuildID cfg)
               \<lparr>Name = channelName author, Type = ChannelTypeGuildText,
                ParentID = CategoryID cfg, Topic = ''Modmail ID: '' @ user_ID author\<rparr>;
             created = \<lparr>ch_ID = newChannelID s, ch_GuildID = GuildID cfg,
                ch_ParentID = CategoryID cfg, ch_Name = channelName author,
                ch_Topic = ''Modmail ID: '' @ user_ID author\<rparr>;
             userNotice = Call_ChannelMessageSendEmbed (m_ChannelID m)
               \<lparr>e_Title = [CHR 0xF0, CHR 0x9F, CHR 0x8E, CHR 0xAB] @ '' Ticket Created'',
                e_Description =
                  ''Your message has been sent to the staff. Please wait for a response.'',
                e_Color = 0x2ecc71, e_Timestamp = embedTime s, e_Author = None, e_Image = None\<rparr>;
             staffNotice = Call_ChannelMessageSendEmbed (newChannelID s)
               \<lparr>e_Title = [CHR 0xF0, CHR 0x9F, CHR 0x86, CHR 0x95] @ '' New Ticket'',
                e_Description = ''User: <@'' @ user_ID author @ ''>'',
                e_Color = 0x3498db, e_Timestamp = [], e_Author = None, e_Image = None\<rparr>
         in case findTarget (case GuildChannels s (GuildID cfg) w of None \<Rightarrow> [] | Some chs \<Rightarrow> chs)
                  (user_ID author) of
              Some tc \<Rightarrow>
                messageCreate cfg s m w =
                  (Returned,
                   w\<lparr>trace := trace w @ [forward (ch_ID tc)] @ reaction (ch_ID tc) @ [entry]\<rparr>)
                \<and> count_list (issued w (snd (messageCreate cfg s m w))) (forward (ch_ID tc)) = 1
                \<and> count_list (delivered s (issued w (snd (messageCreate cfg s m w))))
                      (forward (ch_ID tc))
                    = (if fails s (forward (ch_ID tc)) then 0 else 1)
                \<and> count_list (issued w (snd (messageCreate cfg s m w))) entry = 1
            | None \<Rightarrow>
                \<not> fails s creation \<longrightarrow>
                messageCreate cfg s m w =
                  (Returned,
                   w\<lparr>channels := channels w @ [created],
                      trace := trace w
                        @ [creation, userNotice, staffNotice, forward (newChannelID s)]
                        @ reaction (newChannelID s) @ [entry]\<rparr>)
                \<and> count_list (issued w (snd (messageCreate cfg s m w))) creation = 1
                \<and> count_list (issued w (snd (messageCreate cfg s m w)))
                      (forward (newChannelID s)) = 1
                \<and> count_list (delivered s (issued w (snd (messageCreate cfg s m w))))
                      (forward (newChannelID s))
                    = (if fails s (forward (newChannelID s)) then 0 else 1)
                \<and> count_list (issued w (snd (messageCreate cfg s m w))) entry = 1"
proof (cases "findTarget (case GuildChannels s (GuildID cfg) w of None \<Rightarrow> [] | Some chs \<Rightarrow> chs)
                 (user_ID (m_Author m))")
  case (Some tc)
  then show ?thesis
    by (simp add: Let_def dm_found [OF dm other Some] forwardToStaffChannel_eq
        count_list_delivered userEmbed_def firstImage_def userLogEntry_def envelope_def)
next
  case None
  show ?thesis
  proof (cases "fails s (Call_GuildChannelCreateComplex (GuildID cfg) (ticketData cfg (m_Author m)))")
    case True
    then show ?thesis by (simp add: Let_def None ticketData_def)
  next
    case False
    then show ?thesis
      by (simp add: Let_def None dm_create_ok [OF dm other None False]
          count_list_delivered userEmbed_def firstImage_def userLogEntry_def envelope_def
          ticketData_def newTicket_def ticketCreatedEmbed_def newTicketEmbed_def Mention_def)
  qed
qed

theorem C2_direct_message_flow_witness:
  "m_GuildID (dm bob ''Hello'' []) = []
   \<and> user_ID (m_Author (dm bob ''Hello'' [])) \<noteq> State_User_ID session0
   \<and> messageCreate cfg0 session0 (dm bob ''Hello'' []) world0 =
       (Returned,
        \<lparr>channels =
           [\<lparr>ch_ID = ''C100'', ch_GuildID = ''G1'', ch_ParentID = ''CAT1'',
             ch_Name = ''ticket-bob'', ch_Topic = ''Modmail ID: U1''\<rparr>],
         trace =
           [Call_GuildChannelCreateComplex ''G1''
              \<lparr>Name = ''ticket-bob'', Type = ChannelTypeGuildText, ParentID = ''CAT1'',
               Topic = ''Modmail ID: U1''\<rparr>,
            Call_ChannelMessageSendEmbed ''DM-U1''
              \<lparr>e_Title = [CHR 0xF0, CHR 0x9F, CHR 0x8E, CHR 0xAB] @ '' Ticket Created'',
               e_Description =
                 ''Your message has been sent to the staff. Please wait for a response.'',
               e_Color = 0x2ecc71, e_Timestamp = ''2024-01-01T00:00:00Z'', e_Author = None,
               e_Image = None\<rparr>,
            Call_ChannelMessageSendEmbed ''C100''
              \<lparr>e_Title = [CHR 0xF0, CHR 0x9F, CHR 0x86, CHR 0x95] @ '' New Ticket'',
               e_Description = ''User: <@U1>'', e_Color = 0x3498db, e_Timestamp = [],
               e_Author = None, e_Image = None\<rparr>,
            Call_ChannelMessageSendEmbed ''C100''
              \<lparr>e_Title = [], e_Description = ''Hello'', e_Color = 0x2ecc71, e_Timestamp = [],
               e_Author = Some \<lparr>ea_Name = ''Bob!'', ea_IconURL = ''https://cdn/u1.png''\<rparr>,
               e_Image = None\<rparr>,
            Call_MessageReactionAdd ''C100'' ''M900'' [CHR 0xF0, CHR 0x9F, CHR 0x93, CHR 0xA9],
            Call_InsertOne \<lparr>UserID = ''U1'', Content = ''Hello'', HasFile = False,
              Timestamp = 0, Sender = ''user''\<rparr>]\<rparr>)
   \<and> messageCreate cfg0 session0 (dm bob ''Hello'' [picture]) world1 =
       (Returned,
        \<lparr>channels = [ticketU1, lounge, noOwner],
         trace =
           [Call_ChannelMessageSendEmbed ''C1''
              \<lparr>e_Title = [], e_Description = ''Hello'', e_Color = 0x2ecc71, e_Timestamp = [],
               e_Author = Some \<lparr>ea_Name = ''Bob!'', ea_IconURL = ''https://cdn/u1.png''\<rparr>,
               e_Image = Some \<lparr>img_URL = ''https://cdn/p.png''\<rparr>\<rparr>,
            Call_MessageReactionAdd ''C1'' ''M900'' [CHR 0xF0, CHR 0x9F, CHR 0x93, CHR 0xA9],
            Call_InsertOne \<lparr>UserID = ''U1'', Content = ''Hello'', HasFile = True,
              Timestamp = 0, Sender = ''user''\<rparr>]\<rparr>)"
proof -
  let ?m = "dm bob ''Hello'' []" and ?p = "dm bob ''Hello'' [picture]"
  have n: "findTarget (case GuildChannels session0 (GuildID cfg0) world0 of
                   None \<Rightarrow> [] | Some chs \<Rightarrow> chs) (user_ID bob) = None"
    by (simp add: GuildChannels_def world0_def split: option.splits)
  have f: "fails session0 c = False" for c by (simp add: session0_def)
  have found: "findTarget (case GuildChannels session0 (GuildID cfg0) world1 of
                   None \<Rightarrow> [] | Some chs \<Rightarrow> chs) (user_ID bob) = Some ticketU1"
    by (simp add: GuildChannels_def session0_def world1_def ticketU1_def
        lounge_def noOwner_def cfg0_def dm_def bob_def)
  have a: "messageCreate cfg0 session0 ?m world0 =
       (Returned,
        \<lparr>channels =
           [\<lparr>ch_ID = ''C100'', ch_GuildID = ''G1'', ch_ParentID = ''CAT1'',
             ch_Name = ''ticket-bob'', ch_Topic = ''Modmail ID: U1''\<rparr>],
         trace =
           [Call_GuildChannelCreateComplex ''G1''
              \<lparr>Name = ''ticket-bob'', Type = ChannelTypeGuildText, ParentID = ''CAT1'',
               Topic = ''Modmail ID: U1''\<rparr>,
            Call_ChannelMessageSendEmbed ''DM-U1''
              \<lparr>e_Title = [CHR 0xF0, CHR 0x9F, CHR 0x8E, CHR 0xAB] @ '' Ticket Created'',
               e_Description =
                 ''Your message has been sent to the staff. Please wait for a response.'',
               e_Color = 0x2ecc71, e_Timestamp = ''2024-01-01T00:00:00Z'', e_Author = None,
               e_Image = None\<rparr>,
            Call_ChannelMessageSendEmbed ''C100''
              \<lparr>e_Title = [CHR 0xF0, CHR 0x9F, CHR 0x86, CHR 0x95] @ '' New Ticket'',
               e_Description = ''User: <@U1>'', e_Color = 0x3498db, e_Timestamp = [],
               e_Author = None, e_Image = None\<rparr>,
            Call_ChannelMessageSendEmbed ''C100''
              \<lparr>e_Title = [], e_Description = ''Hello'', e_Color = 0x2ecc71, e_Timestamp = [],
               e_Author = Some \<lparr>ea_Name = ''Bob!'', ea_IconURL = ''https://cdn/u1.png''\<rparr>,
               e_Image = None\<rparr>,
            Call_MessageReactionAdd ''C100'' ''M900'' [CHR 0xF0, CHR 0x9F, CHR 0x93, CHR 0xA9],
            Call_InsertOne \<lparr>UserID = ''U1'', Content = ''Hello'', HasFile = False,
              Timestamp = 0, Sender = ''user''\<rparr>]\<rparr>)"
    using C2_direct_message_flow [OF dm_basic(1) dm_other(1), of "''Hello''" "[]" cfg0 world0]
    by (simp add: Let_def n f dm_basic channelName_bob)
       (simp add: cfg0_def session0_def bob_def world0_def)
  have b: "messageCreate cfg0 session0 ?p world1 =
       (Returned,
        \<lparr>channels = [ticketU1, lounge, noOwner],
         trace =
           [Call_ChannelMessageSendEmbed ''C1''
              \<lparr>e_Title = [], e_Description = ''Hello'', e_Color = 0x2ecc71, e_Timestamp = [],
               e_Author = Some \<lparr>ea_Name = ''Bob!'', ea_IconURL = ''https://cdn/u1.png''\<rparr>,
               e_Image = Some \<lparr>img_URL = ''https://cdn/p.png''\<rparr>\<rparr>,
            Call_MessageReactionAdd ''C1'' ''M900'' [CHR 0xF0, CHR 0x9F, CHR 0x93, CHR 0xA9],
            Call_InsertOne \<lparr>UserID = ''U1'', Content = ''Hello'', HasFile = True,
              Timestamp = 0, Sender = ''user''\<rparr>]\<rparr>)"
    using C2_direct_message_flow [OF dm_basic(1) dm_other(1), of "''Hello''" "[picture]" cfg0 world1]
    by (simp add: Let_def found f dm_basic)
       (simp add: session0_def bob_def world1_def ticketU1_def picture_def)
  show ?thesis
    by (intro conjI dm_basic(1) dm_other(1) a b)
qed

text \<open>
  C2 fails as stated: the user has a ticket and the request that forwards the message
  fails. The handler returns and inserts the log entry all the same, and no message
  arrives in the ticket channel: the log insert is the only request of the run that
  succeeds.
\<close>

theorem C2_counterexample:
  "m_GuildID (dm bob ''Hello'' []) = []
   \<and> user_ID (m_Author (dm bob ''Hello'' [])) \<noteq> State_User_ID sessionSendFails
   \<and> fst (messageCreate cfg0 sessionSendFails (dm bob ''Hello'' []) world1) = Returned
   \<and> issued world1 (snd (messageCreate cfg0 sessionSendFails (dm bob ''Hello'' []) world1))
       = [Call_ChannelMessageSendEmbed ''C1''
            \<lparr>e_Title = [], e_Description = ''Hello'', e_Color = 0x2ecc71, e_Timestamp = [],
             e_Author = Some \<lparr>ea_Name = ''Bob!'', ea_IconURL = ''https://cdn/u1.png''\<rparr>,
             e_Image = None\<rparr>,
          Call_InsertOne \<lparr>UserID = ''U1'', Content = ''Hello'', HasFile = False,
            Timestamp = 0, Sender = ''user''\<rparr>]
   \<and> delivered sessionSendFails
        (issued world1 (snd (messageCreate cfg0 sessionSendFails (dm bob ''Hello'' []) world1)))
       = [Call_InsertOne \<lparr>UserID = ''U1'', Content = ''Hello'', HasFile = False,
            Timestamp = 0, Sender = ''user''\<rparr>]"
proof -
  let ?m = "dm bob ''Hello'' []"
  have h2: "user_ID (m_Author ?m) \<noteq> State_User_ID sessionSendFails"
    by (simp add: dm_def bob_def session0_def sessionSendFails_def)
  have found: "findTarget (case GuildChannels sessionSendFails (GuildID cfg0) world1 of
                   None \<Rightarrow> [] | Some chs \<Rightarrow> chs) (user_ID (m_Author ?m)) = Some ticketU1"
    by (simp add: GuildChannels_def sessionSendFails_def session0_def world1_def ticketU1_def
        lounge_def noOwner_def cfg0_def dm_def bob_def)
  note run = dm_found [OF dm_basic(1) h2 found]
  have a: "fst (messageCreate cfg0 sessionSendFails ?m world1) = Returned"
    by (simp add: run forwardToStaffChannel_eq)
  have b: "issued world1 (snd (messageCreate cfg0 sessionSendFails ?m world1))
       = [Call_ChannelMessageSendEmbed ''C1''
            \<lparr>e_Title = [], e_Description = ''Hello'', e_Color = 0x2ecc71, e_Timestamp = [],
             e_Author = Some \<lparr>ea_Name = ''Bob!'', ea_IconURL = ''https://cdn/u1.png''\<rparr>,
             e_Image = None\<rparr>,
          Call_InsertOne \<lparr>UserID = ''U1'', Content = ''Hello'', HasFile = False,
            Timestamp = 0, Sender = ''user''\<rparr>]"
    by (simp add: run forwardToStaffChannel_eq userEmbed_def firstImage_def userLogEntry_def
        dm_basic)
       (simp add: sessionSendFails_def session0_def bob_def ticketU1_def)
  have c: "delivered sessionSendFails
        (issued world1 (snd (messageCreate cfg0 sessionSendFails ?m world1)))
       = [Call_InsertOne \<lparr>UserID = ''U1'', Content = ''Hello'', HasFile = False,
            Timestamp = 0, Sender = ''user''\<rparr>]"
    unfolding b by (simp add: delivered_def sessionSendFails_def)
  show ?thesis by (intro conjI dm_basic(1) h2 a b c)
qed

text \<open>
  The run on a failed creation request, in an empty guild: the user is told that a
  ticket was created, then the handler panics on the \<^verbatim>\<open>nil\<close> channel
  (\<^verbatim>\<open>targetChannel.ID\<close>).
\<close>

lemma creation_failure_run:
  "messageCreate cfg0 sessionCreateFails (dm bob ''Hello'' []) world0 =
     (Panicked,
      \<lparr>channels = [],
       trace =
         [Call_GuildChannelCreateComplex ''G1''
            \<lparr>Name = ''ticket-bob'', Type = ChannelTypeGuildText, ParentID = ''CAT1'',
             Topic = ''Modmail ID: U1''\<rparr>,
          Call_ChannelMessageSendEmbed ''DM-U1''
            \<lparr>e_Title = [CHR 0xF0, CHR 0x9F, CHR 0x8E, CHR 0xAB] @ '' Ticket Created'',
             e_Description =
               ''Your message has been sent to the staff. Please wait for a response.'',
             e_Color = 0x2ecc71, e_Timestamp = ''2024-01-01T00:00:00Z'', e_Author = None,
             e_Image = None\<rparr>]\<rparr>)"
proof -
  let ?m = "dm bob ''Hello'' []"
  have h2: "user_ID (m_Author ?m) \<noteq> State_User_ID sessionCreateFails"
    by (simp add: dm_def bob_def session0_def sessionCreateFails_def)
  have n: "findTarget (case GuildChannels sessionCreateFails (GuildID cfg0) world0 of
                   None \<Rightarrow> [] | Some chs \<Rightarrow> chs) (user_ID (m_Author ?m)) = None"
    by (simp add: GuildChannels_def world0_def split: option.splits)
  have f: "fails sessionCreateFails
      (Call_GuildChannelCreateComplex (GuildID cfg0) (ticketData cfg0 (m_Author ?m)))"
    by (simp add: sessionCreateFails_def)
  show ?thesis
    by (simp add: dm_create_fails [OF dm_basic(1) h2 n f] ticketData_def ticketCreatedEmbed_def
        dm_basic channelName_bob)
       (simp add: cfg0_def sessionCreateFails_def session0_def bob_def world0_def)
qed

text \<open>
  C3, as the program has it. Two direct messages of distinct users are handled one after
  the other, and both runs return. If no topic of the guild contains both identifiers,
  the topic of the first user's ticket does not contain the second user's identifier,
  and the platform's channel identifiers are unique, then the two messages are forwarded
  into channels with different identifiers, each with a topic that contains its own
  user's identifier. Nothing is assumed about the display names.
\<close>

theorem C3_distinct_users_distinct_channels:
  assumes dm: "m_GuildID m1 = []" "m_GuildID m2 = []"
    and other: "user_ID (m_Author m1) \<noteq> State_User_ID s1" "user_ID (m_Author m2) \<noteq> State_User_ID s2"
    and users: "user_ID (m_Author m1) \<noteq> user_ID (m_Author m2)"
    and run1: "messageCreate cfg s1 m1 w = (Returned, w1)"
    and run2: "messageCreate cfg s2 m2 w1 = (Returned, w2)"
    and topics: "\<forall>ch\<in>set (channels w).
        \<not> (strings_Contains (ch_Topic ch) (user_ID (m_Author m1))
           \<and> strings_Contains (ch_Topic ch) (user_ID (m_Author m2)))"
    and ticket1: "\<not> strings_Contains (''Modmail ID: '' @ user_ID (m_Author m1)) (user_ID (m_Author m2))"
    and ids: "distinct (map ch_ID (channels w))" "newChannelID s1 \<notin> ch_ID ` set (channels w)"
      "newChannelID s2 \<notin> ch_ID ` set (channels w1)"
  shows "\<exists>c1 c2. c1 \<in> set (channels w2) \<and> c2 \<in> set (channels w2) \<and> ch_ID c1 \<noteq> ch_ID c2
     \<and> strings_Contains (ch_Topic c1) (user_ID (m_Author m1))
     \<and> strings_Contains (ch_Topic c2) (user_ID (m_Author m2))
     \<and> filter (isForward m1) (issued w w1) = [Call_ChannelMessageSendEmbed (ch_ID c1) (userEmbed m1)]
     \<and> filter (isForward m2) (issued w1 w2) = [Call_ChannelMessageSendEmbed (ch_ID c2) (userEmbed m2)]"
proof -
  let ?u1 = "user_ID (m_Author m1)" and ?u2 = "user_ID (m_Author m2)"
  from dm_step [OF dm(1) other(1) run1] obtain c1 where
    c1: "c1 \<in> set (channels w1)" "strings_Contains (ch_Topic c1) ?u1"
      "filter (isForward m1) (issued w w1) = [Call_ChannelMessageSendEmbed (ch_ID c1) (userEmbed m1)]"
    and w1: "channels w1 = channels w
          \<or> channels w1 = channels w @ [c1] \<and> c1 = newTicket cfg s1 (m_Author m1)"
    by blast
  from dm_step [OF dm(2) other(2) run2] obtain c2 where
    c2: "c2 \<in> set (channels w2)" "strings_Contains (ch_Topic c2) ?u2"
      "filter (isForward m2) (issued w1 w2) = [Call_ChannelMessageSendEmbed (ch_ID c2) (userEmbed m2)]"
    and w2: "channels w2 = channels w1
          \<or> channels w2 = channels w1 @ [c2] \<and> c2 = newTicket cfg s2 (m_Author m2)"
    by blast
  have topics1: "\<forall>ch\<in>set (channels w1).
        \<not> (strings_Contains (ch_Topic ch) ?u1 \<and> strings_Contains (ch_Topic ch) ?u2)"
    using w1 topics ticket1 by (auto simp: newTicket_def)
  have ids1: "distinct (map ch_ID (channels w1))"
    using w1 ids(1,2) by (auto simp: newTicket_def)
  have "ch_ID c1 \<noteq> ch_ID c2"
  proof
    assume eq: "ch_ID c1 = ch_ID c2"
    from w2 show False
    proof
      assume same: "channels w2 = channels w1"
      with c2(1) have "c2 \<in> set (channels w1)" by simp
      with c1(1) eq ids1 have "c1 = c2" by (meson distinct_map inj_onD)
      with c1(2) c2(2) topics1 c1(1) show False by blast
    next
      assume "channels w2 = channels w1 @ [c2] \<and> c2 = newTicket cfg s2 (m_Author m2)"
      then have "ch_ID c2 = newChannelID s2" by (simp add: newTicket_def)
      with eq c1(1) ids(3) show False by force
    qed
  qed
  moreover have "c1 \<in> set (channels w2)" using w2 c1(1) by auto
  ultimately show ?thesis using c1 c2 by blast
qed

theorem C3_distinct_users_distinct_channels_witness:
  "m_GuildID (dm bob ''Hello'' []) = [] \<and> m_GuildID (dm bob2 ''Hi'' []) = []
   \<and> user_ID (m_Author (dm bob ''Hello'' [])) \<noteq> user_ID (m_Author (dm bob2 ''Hi'' []))
   \<and> channelName bob = channelName bob2
   \<and> channels world0 = []
   \<and> filter (isForward (dm bob ''Hello'' []))
        (issued world0 (snd (messageCreate cfg0 session0 (dm bob ''Hello'' []) world0)))
       = [Call_ChannelMessageSendEmbed ''C100'' (userEmbed (dm bob ''Hello'' []))]
   \<and> (\<exists>c2::Channel. ch_ID c2 \<noteq> ''C100''
        \<and> strings_Contains (ch_Topic c2) (user_ID (m_Author (dm bob2 ''Hi'' [])))
        \<and> filter (isForward (dm bob2 ''Hi'' []))
            (issued (snd (messageCreate cfg0 session0 (dm bob ''Hello'' []) world0))
              (snd (messageCreate cfg0 session1 (dm bob2 ''Hi'' [])
                     (snd (messageCreate cfg0 session0 (dm bob ''Hello'' []) world0)))))
           = [Call_ChannelMessageSendEmbed (ch_ID c2) (userEmbed (dm bob2 ''Hi'' []))])"
proof -
  let ?m1 = "dm bob ''Hello'' []" and ?m2 = "dm bob2 ''Hi'' []"
  let ?w1 = "snd (messageCreate cfg0 session0 ?m1 world0)"
  let ?w2 = "snd (messageCreate cfg0 session1 ?m2 ?w1)"
  note one = first_ticket [OF dm_other(1) [of "''Hello''" "[]"]]
  have users: "user_ID (m_Author ?m1) \<noteq> user_ID (m_Author ?m2)"
    by (simp add: dm_def bob_def bob2_def)
  have names: "channelName bob = channelName bob2" by code_simp
  have n2: "findTarget (case GuildChannels session1 (GuildID cfg0) ?w1 of
                   None \<Rightarrow> [] | Some chs \<Rightarrow> chs) (user_ID (m_Author ?m2)) = None"
    by (simp add: GuildChannels_def one(2))
       (simp add: session1_def session0_def newTicket_def cfg0_def bob_def bob2_def dm_def)
  have f2: "\<not> fails session1 (Call_GuildChannelCreateComplex (GuildID cfg0) (ticketData cfg0 (m_Author ?m2)))"
    by (simp add: session1_def session0_def)
  have run2: "messageCreate cfg0 session1 ?m2 ?w1 = (Returned, ?w2)"
    by (simp add: dm_create_ok [OF dm_basic(1) dm_other(2) n2 f2])
  have e: "channels world0 = []" by (simp add: world0_def)
  have topics: "\<forall>ch\<in>set (channels world0).
        \<not> (strings_Contains (ch_Topic ch) (user_ID (m_Author ?m1))
           \<and> strings_Contains (ch_Topic ch) (user_ID (m_Author ?m2)))"
    by (simp add: e)
  have ticket1: "\<not> strings_Contains (''Modmail ID: '' @ user_ID (m_Author ?m1)) (user_ID (m_Author ?m2))"
    by (simp add: dm_def bob_def bob2_def)
  have ids: "distinct (map ch_ID (channels world0))"
    "newChannelID session0 \<notin> ch_ID ` set (channels world0)"
    "newChannelID session1 \<notin> ch_ID ` set (channels ?w1)"
    by (simp_all add: e one(2)) (simp add: newTicket_def session0_def session1_def)
  from C3_distinct_users_distinct_channels [OF dm_basic(1) dm_basic(1) dm_other(1) dm_other(2)
      users one(1) run2 topics ticket1 ids]
  obtain c1 where "\<exists>c2. c1 \<in> set (channels ?w2) \<and> c2 \<in> set (channels ?w2) \<and> ch_ID c1 \<noteq> ch_ID c2
     \<and> strings_Contains (ch_Topic c1) (user_ID (m_Author ?m1))
     \<and> strings_Contains (ch_Topic c2) (user_ID (m_Author ?m2))
     \<and> filter (isForward ?m1) (issued world0 ?w1) = [Call_ChannelMessageSendEmbed (ch_ID c1) (userEmbed ?m1)]
     \<and> filter (isForward ?m2) (issued ?w1 ?w2) = [Call_ChannelMessageSendEmbed (ch_ID c2) (userEmbed ?m2)]" ..
  then obtain c2 where p: "c1 \<in> set (channels ?w2) \<and> c2 \<in> set (channels ?w2) \<and> ch_ID c1 \<noteq> ch_ID c2
     \<and> strings_Contains (ch_Topic c1) (user_ID (m_Author ?m1))
     \<and> strings_Contains (ch_Topic c2) (user_ID (m_Author ?m2))
     \<and> filter (isForward ?m1) (issued world0 ?w1) = [Call_ChannelMessageSendEmbed (ch_ID c1) (userEmbed ?m1)]
     \<and> filter (isForward ?m2) (issued ?w1 ?w2) = [Call_ChannelMessageSendEmbed (ch_ID c2) (userEmbed ?m2)]" ..
  note c = p [THEN conjunct2, THEN conjunct2, THEN conjunct1]
    p [THEN conjunct2, THEN conjunct2, THEN conjunct2, THEN conjunct2, THEN conjunct1]
    p [THEN conjunct2, THEN conjunct2, THEN conjunct2, THEN conjunct2, THEN conjunct2, THEN conjunct1]
    p [THEN conjunct2, THEN conjunct2, THEN conjunct2, THEN conjunct2, THEN conjunct2, THEN conjunct2]
  from c(3) one(3) have "ch_ID c1 = ''C100''" by simp
  with c(1) have ne: "ch_ID c2 \<noteq> ''C100''" by simp
  have ex: "\<exists>c2::Channel. ch_ID c2 \<noteq> ''C100''
        \<and> strings_Contains (ch_Topic c2) (user_ID (m_Author ?m2))
        \<and> filter (isForward ?m2) (issued ?w1 ?w2)
           = [Call_ChannelMessageSendEmbed (ch_ID c2) (userEmbed ?m2)]"
  proof (intro exI conjI)
    show "ch_ID c2 \<noteq> ''C100''" by (rule ne)
    show "strings_Contains (ch_Topic c2) (user_ID (m_Author ?m2))" by (rule c(2))
    show "filter (isForward ?m2) (issued ?w1 ?w2)
           = [Call_ChannelMessageSendEmbed (ch_ID c2) (userEmbed ?m2)]" by (rule c(4))
  qed
  show ?thesis
    by (intro conjI dm_basic(1) users names e one(3) ex)
qed

text \<open>
  C3 fails as stated: the identifier of \<open>ben\<close> is a substring of the identifier of
  \<open>ann\<close>. In an empty guild \<open>ann\<close> writes first and gets the channel \<open>C100\<close>; the
  scan for \<open>ben\<close> then matches the topic of that channel, and the message of \<open>ben\<close>
  is forwarded into the ticket of \<open>ann\<close>; no channel is created for \<open>ben\<close>.
\<close>

theorem C3_counterexample:
  "user_ID ann \<noteq> user_ID ben
   \<and> channels world0 = []
   \<and> filter (isForward (dm ann ''Hi'' []))
        (issued world0 (snd (messageCreate cfg0 session0 (dm ann ''Hi'' []) world0)))
       = [Call_ChannelMessageSendEmbed ''C100'' (userEmbed (dm ann ''Hi'' []))]
   \<and> filter (isForward (dm ben ''Yo'' []))
        (issued (snd (messageCreate cfg0 session0 (dm ann ''Hi'' []) world0))
           (snd (messageCreate cfg0 session1 (dm ben ''Yo'' [])
                  (snd (messageCreate cfg0 session0 (dm ann ''Hi'' []) world0)))))
       = [Call_ChannelMessageSendEmbed ''C100'' (userEmbed (dm ben ''Yo'' []))]
   \<and> channels (snd (messageCreate cfg0 session1 (dm ben ''Yo'' [])
                  (snd (messageCreate cfg0 session0 (dm ann ''Hi'' []) world0))))
       = [newTicket cfg0 session0 ann]
   \<and> ch_Topic (newTicket cfg0 session0 ann) = ''Modmail ID: 123456789012345678''"
proof -
  let ?w1 = "snd (messageCreate cfg0 session0 (dm ann ''Hi'' []) world0)"
  let ?m2 = "dm ben ''Yo'' []"
  note one = first_ticket [OF dm_other(3) [of "''Hi''" "[]"]]
  have found: "findTarget (case GuildChannels session1 (GuildID cfg0) ?w1 of
                   None \<Rightarrow> [] | Some chs \<Rightarrow> chs) (user_ID (m_Author ?m2))
                 = Some (newTicket cfg0 session0 ann)"
    by (simp add: GuildChannels_def one(2))
       (simp add: session1_def session0_def newTicket_def cfg0_def ann_def ben_def dm_def)
  note two = dm_found [OF dm_basic(1) dm_other(4) found]
  have a: "filter (isForward ?m2) (issued ?w1 (snd (messageCreate cfg0 session1 ?m2 ?w1)))
       = [Call_ChannelMessageSendEmbed ''C100'' (userEmbed ?m2)]"
    by (simp add: two forwardToStaffChannel_eq) (simp add: newTicket_def session0_def)
  have b: "channels (snd (messageCreate cfg0 session1 ?m2 ?w1)) = [newTicket cfg0 session0 ann]"
    by (simp add: two forwardToStaffChannel_eq one(2))
  have c: "user_ID ann \<noteq> user_ID ben" by (simp add: ann_def ben_def)
  have d: "ch_Topic (newTicket cfg0 session0 ann) = ''Modmail ID: 123456789012345678''"
    by (simp add: newTicket_def ann_def)
  have e: "channels world0 = []" by (simp add: world0_def)
  from one(3) a b c d e show ?thesis by blast
qed

text \<open>
  C10. Whenever the handler makes the request that forwards a direct message, it inserts
  the log entry with sender \<^verbatim>\<open>user\<close> as its last request, whether or not the forward
  request fails.
\<close>

theorem C10_user_log_unconditional:
  assumes dm: "m_GuildID m = []" and other: "user_ID (m_Author m) \<noteq> State_User_ID s"
    and c: "c \<in> set (issued w (snd (messageCreate cfg s m w)))" "isForward m c"
  shows "fst (messageCreate cfg s m w) = Returned
     \<and> filter isLogEntry (issued w (snd (messageCreate cfg s m w)))
         = [Call_InsertOne \<lparr>UserID = user_ID (m_Author m), Content = m_Content m,
              HasFile = (m_Attachments m \<noteq> []), Timestamp = logTime s, Sender = ''user''\<rparr>]
     \<and> last (issued w (snd (messageCreate cfg s m w)))
         = Call_InsertOne \<lparr>UserID = user_ID (m_Author m), Content = m_Content m,
              HasFile = (m_Attachments m \<noteq> []), Timestamp = logTime s, Sender = ''user''\<rparr>"
proof (cases "findTarget (case GuildChannels s (GuildID cfg) w of None \<Rightarrow> [] | Some chs \<Rightarrow> chs)
                 (user_ID (m_Author m))")
  case (Some tc)
  then show ?thesis
    by (simp add: dm_found [OF dm other Some] forwardToStaffChannel_eq userLogEntry_def)
next
  case None
  show ?thesis
  proof (cases "fails s (Call_GuildChannelCreateComplex (GuildID cfg) (ticketData cfg (m_Author m)))")
    case True
    with c show ?thesis
      by (auto simp: dm_create_fails [OF dm other None True])
  next
    case False
    then show ?thesis
      by (simp add: dm_create_ok [OF dm other None False] userLogEntry_def)
  qed
qed

theorem C10_user_log_unconditional_witness:
  "m_GuildID (dm bob ''Hello'' [picture]) = []
   \<and> user_ID (m_Author (dm bob ''Hello'' [picture])) \<noteq> State_User_ID sessionSendFails
   \<and> Call_ChannelMessageSendEmbed ''C1'' (userEmbed (dm bob ''Hello'' [picture]))
       \<in> set (issued world1 (snd (messageCreate cfg0 sessionSendFails (dm bob ''Hello'' [picture]) world1)))
   \<and> isForward (dm bob ''Hello'' [picture])
        (Call_ChannelMessageSendEmbed ''C1'' (userEmbed (dm bob ''Hello'' [picture])))
   \<and> fails sessionSendFails
        (Call_ChannelMessageSendEmbed ''C1'' (userEmbed (dm bob ''Hello'' [picture])))
   \<and> filter isLogEntry
        (issued world1 (snd (messageCreate cfg0 sessionSendFails (dm bob ''Hello'' [picture]) world1)))
       = [Call_InsertOne \<lparr>UserID = ''U1'', Content = ''Hello'', HasFile = True, Timestamp = 0,
            Sender = ''user''\<rparr>]"
proof -
  let ?m = "dm bob ''Hello'' [picture]"
  let ?c = "Call_ChannelMessageSendEmbed ''C1'' (userEmbed ?m)"
  have h1: "m_GuildID ?m = []" by (simp add: dm_def)
  have h2: "user_ID (m_Author ?m) \<noteq> State_User_ID sessionSendFails"
    by (simp add: dm_def bob_def session0_def sessionSendFails_def)
  have found: "findTarget (case GuildChannels sessionSendFails (GuildID cfg0) world1 of
                   None \<Rightarrow> [] | Some chs \<Rightarrow> chs) (user_ID (m_Author ?m)) = Some ticketU1"
    by (simp add: GuildChannels_def sessionSendFails_def session0_def world1_def ticketU1_def
        lounge_def noOwner_def cfg0_def dm_def bob_def)
  have f: "fails sessionSendFails ?c" by (simp add: sessionSendFails_def)
  have h3: "?c \<in> set (issued world1 (snd (messageCreate cfg0 sessionSendFails ?m world1)))"
    by (simp add: dm_found [OF h1 h2 found] forwardToStaffChannel_eq) (simp add: ticketU1_def)
  have h4: "isForward ?m ?c" by simp
  from C10_user_log_unconditional [OF h1 h2 h3 h4]
  have "filter isLogEntry (issued world1 (snd (messageCreate cfg0 sessionSendFails ?m world1)))
       = [Call_InsertOne \<lparr>UserID = ''U1'', Content = ''Hello'', HasFile = True, Timestamp = 0,
            Sender = ''user''\<rparr>]"
    by (simp add: dm_basic) (simp add: bob_def sessionSendFails_def session0_def)
  with h1 h2 h3 h4 f show ?thesis by blast
qed

section \<open>Messages in the guild\<close>

text \<open>
  C5. A message in the guild changes nothing and makes no request unless the channel it
  was sent in resolves to a channel whose parent is the configured category and whose
  name starts with \<^verbatim>\<open>ticket-\<close>.
\<close>

theorem C5_non_ticket_channel_ignored:
  assumes "m_GuildID m \<noteq> []"
    and "\<forall>ch. resolveChannel s m w = Some ch \<longrightarrow>
           ch_ParentID ch \<noteq> CategoryID cfg \<or> \<not> strings_HasPrefix (ch_Name ch) ''ticket-''"
  shows "messageCreate cfg s m w = (Returned, w) \<and> issued w (snd (messageCreate cfg s m w)) = []"
  using guild_rejected [OF assms] by simp

theorem C5_non_ticket_channel_ignored_witness:
  "m_GuildID (staffMessage ''C2'' ''!close'' []) \<noteq> []
   \<and> resolveChannel session0 (staffMessage ''C2'' ''!close'' []) world1 = Some lounge
   \<and> ch_ParentID lounge \<noteq> CategoryID cfg0
   \<and> messageCreate cfg0 session0 (staffMessage ''C2'' ''!close'' []) world1 = (Returned, world1)
   \<and> issued world1 (snd (messageCreate cfg0 session0 (staffMessage ''C2'' ''!close'' []) world1)) = []"
proof -
  have h2: "resolveChannel session0 (staffMessage ''C2'' ''!close'' []) world1 = Some lounge"
    by (simp add: resolveChannel_def session0_def staffMessage_def Channel_get_def world1_def
        ticketU1_def lounge_def)
  have h3: "ch_ParentID lounge \<noteq> CategoryID cfg0" by (simp add: lounge_def cfg0_def)
  have "\<forall>ch. resolveChannel session0 (staffMessage ''C2'' ''!close'' []) world1 = Some ch \<longrightarrow>
           ch_ParentID ch \<noteq> CategoryID cfg0 \<or> \<not> strings_HasPrefix (ch_Name ch) ''ticket-''"
    using h2 h3 by simp
  from C5_non_ticket_channel_ignored [OF staffMessage_basic(1) this]
  show ?thesis using staffMessage_basic(1) h2 h3 by simp
qed

text \<open>
  C9. In a channel that passes both checks and whose topic is exactly the prefix
  \<^verbatim>\<open>Modmail ID: \<close>, the extracted identifier is empty and the handler does nothing,
  whatever the text of the message: no close, no forward, no log entry.
\<close>

theorem C9_bare_prefix_topic_ignored:
  assumes "m_GuildID m \<noteq> []" and "resolveChannel s m w = Some ch"
    and "ch_ParentID ch = CategoryID cfg" and "strings_HasPrefix (ch_Name ch) ''ticket-''"
    and "ch_Topic ch = ''Modmail ID: ''"
  shows "messageCreate cfg s m w = (Returned, w) \<and> issued w (snd (messageCreate cfg s m w)) = []"
proof -
  from assms(5) have "topicUserID ch = []"
    by (simp add: topicUserID_def strings_HasPrefix_def strings_TrimPrefix_def)
  with assms(1,2) have "messageCreate cfg s m w = (Returned, w)" by (rule guild_no_owner)
  then show ?thesis by simp
qed

theorem C9_bare_prefix_topic_ignored_witness:
  "m_GuildID (staffMessage ''C3'' ''!close'' []) \<noteq> []
   \<and> resolveChannel session0 (staffMessage ''C3'' ''!close'' []) world1 = Some noOwner
   \<and> ch_ParentID noOwner = CategoryID cfg0 \<and> strings_HasPrefix (ch_Name noOwner) ''ticket-''
   \<and> ch_Topic noOwner = ''Modmail ID: ''
   \<and> messageCreate cfg0 session0 (staffMessage ''C3'' ''!close'' []) world1 = (Returned, world1)"
proof -
  have h2: "resolveChannel session0 (staffMessage ''C3'' ''!close'' []) world1 = Some noOwner"
    by (simp add: resolveChannel_def session0_def staffMessage_def Channel_get_def world1_def
        ticketU1_def lounge_def noOwner_def)
  have h3: "ch_ParentID noOwner = CategoryID cfg0" by (simp add: noOwner_def cfg0_def)
  have h4: "strings_HasPrefix (ch_Name noOwner) ''ticket-''"
    by (simp add: noOwner_def strings_HasPrefix_def)
  have h5: "ch_Topic noOwner = ''Modmail ID: ''" by (simp add: noOwner_def)
  from C9_bare_prefix_topic_ignored [OF staffMessage_basic(1) h2 h3 h4 h5]
  show ?thesis using staffMessage_basic(1) h2 h3 h4 h5 by simp
qed




text \<open>
  C6, as the program has it. A staff message, other than the close command, in a ticket
  channel with the topic \<^verbatim>\<open>Modmail ID: \<close> followed by the identifier of the owner. When
  the owner's direct-message channel cannot be opened, the handler returns after that
  one request: no notice to the staff, no log entry. When it can, the message is
  forwarded into it (its text, the first attachment as image); if that request succeeds
  the handler reacts to the staff message with the check mark and inserts exactly one
  log entry with sender \<^verbatim>\<open>staff\<close>; if it fails the handler sends the failure notice
  into the ticket channel and inserts no log entry.
\<close>

theorem C6_staff_forward_outcome:
  assumes "m_GuildID m \<noteq> []" and "user_ID (m_Author m) \<noteq> State_User_ID s"
    and "resolveChannel s m w = Some ch"
    and "ch_ParentID ch = CategoryID cfg" and "strings_HasPrefix (ch_Name ch) ''ticket-''"
    and "ch_Topic ch = ''Modmail ID: '' @ userID" and "userID \<noteq> []"
    and "strings_ToLower (m_Content m) \<noteq> ''!close''"
  shows "let openDM = Call_UserChannelCreate userID;
             forward = Call_ChannelMessageSendEmbed (dmChannelID s userID)
               \<lparr>e_Title = [CHR 0xF0, CHR 0x9F, CHR 0x92, CHR 0xAC] @ '' Staff Response'',
                e_Description = m_Content m, e_Color = 0x3498db, e_Timestamp = [],
                e_Author = None,
                e_Image = (case m_Attachments m of [] \<Rightarrow> None
                           | a # _ \<Rightarrow> Some \<lparr>img_URL = att_URL a\<rparr>)\<rparr>;
             reaction = Call_MessageReactionAdd (m_ChannelID m) (m_ID m)
               [CHR 0xE2, CHR 0x9C, CHR 0x85];
             entry = Call_InsertOne
               \<lparr>UserID = userID, Content = m_Content m, HasFile = (m_Attachments m \<noteq> []),
                Timestamp = logTime s, Sender = ''staff''\<rparr>;
             notice = Call_ChannelMessageSend (m_ChannelID m)
               ([CHR 0xE2, CHR 0x9D, CHR 0x8C] @ '' Failed to send DM (DMs might be closed).'')
         in messageCreate cfg s m w =
              (Returned,
               w\<lparr>trace := trace w @
                  (if fails s openDM then [openDM]
                   else if fails s forward then [openDM, forward, notice]
                   else [openDM, forward, reaction, entry])\<rparr>)"
proof -
  have owner: "topicUserID ch = userID" using assms(6) by (rule topicUserID_owner)
  with assms(7) have "topicUserID ch \<noteq> []" by simp
  from guild_forward [OF assms(1-5) this assms(8)] show ?thesis
    by (simp add: owner Let_def staffLogEntry_def staffEmbed_def firstImage_def checkMark_def
        failedNotice_def)
qed

theorem C6_staff_forward_outcome_witness:
  "m_GuildID (staffMessage ''C1'' ''Hi Bob'' [picture]) \<noteq> []
   \<and> user_ID (m_Author (staffMessage ''C1'' ''Hi Bob'' [picture])) \<noteq> State_User_ID session0
   \<and> resolveChannel session0 (staffMessage ''C1'' ''Hi Bob'' [picture]) world1 = Some ticketU1
   \<and> ch_ParentID ticketU1 = CategoryID cfg0 \<and> strings_HasPrefix (ch_Name ticketU1) ''ticket-''
   \<and> ch_Topic ticketU1 = ''Modmail ID: U1''
   \<and> strings_ToLower (m_Content (staffMessage ''C1'' ''Hi Bob'' [picture])) \<noteq> ''!close''
   \<and> issued world1 (snd (messageCreate cfg0 session0 (staffMessage ''C1'' ''Hi Bob'' [picture]) world1))
       = [Call_UserChannelCreate ''U1'',
          Call_ChannelMessageSendEmbed ''DM-U1''
            \<lparr>e_Title = [CHR 0xF0, CHR 0x9F, CHR 0x92, CHR 0xAC] @ '' Staff Response'',
             e_Description = ''Hi Bob'', e_Color = 0x3498db, e_Timestamp = [], e_Author = None,
             e_Image = Some \<lparr>img_URL = ''https://cdn/p.png''\<rparr>\<rparr>,
          Call_MessageReactionAdd ''C1'' ''M2'' [CHR 0xE2, CHR 0x9C, CHR 0x85],
          Call_InsertOne \<lparr>UserID = ''U1'', Content = ''Hi Bob'', HasFile = True, Timestamp = 0,
            Sender = ''staff''\<rparr>]
   \<and> issued world1 (snd (messageCreate cfg0 sessionSendFails (staffMessage ''C1'' ''Hi Bob'' [picture]) world1))
       = [Call_UserChannelCreate ''U1'',
          Call_ChannelMessageSendEmbed ''DM-U1''
            \<lparr>e_Title = [CHR 0xF0, CHR 0x9F, CHR 0x92, CHR 0xAC] @ '' Staff Response'',
             e_Description = ''Hi Bob'', e_Color = 0x3498db, e_Timestamp = [], e_Author = None,
             e_Image = Some \<lparr>img_URL = ''https://cdn/p.png''\<rparr>\<rparr>,
          Call_ChannelMessageSend ''C1''
            ([CHR 0xE2, CHR 0x9D, CHR 0x8C] @ '' Failed to send DM (DMs might be closed).'')]
   \<and> issued world1 (snd (messageCreate cfg0 sessionDMFails (staffMessage ''C1'' ''Hi Bob'' [picture]) world1))
       = [Call_UserChannelCreate ''U1'']"
proof -
  let ?m = "staffMessage ''C1'' ''Hi Bob'' [picture]"
  have nc: "strings_ToLower (m_Content ?m) \<noteq> ''!close''"
    by (simp add: staffMessage_basic not_close)
  have no: "topicUserID ticketU1 \<noteq> []" by (simp add: topicUserID_ticketU1)
  have topic: "ch_Topic ticketU1 = ''Modmail ID: '' @ ''U1''" by (simp add: ticketU1_def)
  have u1: "''U1'' \<noteq> []" by simp
  have topic': "ch_Topic ticketU1 = ''Modmail ID: U1''" by (simp add: ticketU1_def)
  have a: "issued world1 (snd (messageCreate cfg0 session0 ?m world1))
       = [Call_UserChannelCreate ''U1'',
          Call_ChannelMessageSendEmbed ''DM-U1''
            \<lparr>e_Title = [CHR 0xF0, CHR 0x9F, CHR 0x92, CHR 0xAC] @ '' Staff Response'',
             e_Description = ''Hi Bob'', e_Color = 0x3498db, e_Timestamp = [], e_Author = None,
             e_Image = Some \<lparr>img_URL = ''https://cdn/p.png''\<rparr>\<rparr>,
          Call_MessageReactionAdd ''C1'' ''M2'' [CHR 0xE2, CHR 0x9C, CHR 0x85],
          Call_InsertOne \<lparr>UserID = ''U1'', Content = ''Hi Bob'', HasFile = True, Timestamp = 0,
            Sender = ''staff''\<rparr>]"
    using C6_staff_forward_outcome [OF staffMessage_basic(1,2) resolve_C1 ticketU1_valid topic u1 nc]
    by (simp add: Let_def topicUserID_ticketU1 staffMessage_basic)
       (simp add: session0_def picture_def)
  have b: "issued world1 (snd (messageCreate cfg0 sessionSendFails ?m world1))
       = [Call_UserChannelCreate ''U1'',
          Call_ChannelMessageSendEmbed ''DM-U1''
            \<lparr>e_Title = [CHR 0xF0, CHR 0x9F, CHR 0x92, CHR 0xAC] @ '' Staff Response'',
             e_Description = ''Hi Bob'', e_Color = 0x3498db, e_Timestamp = [], e_Author = None,
             e_Image = Some \<lparr>img_URL = ''https://cdn/p.png''\<rparr>\<rparr>,
          Call_ChannelMessageSend ''C1''
            ([CHR 0xE2, CHR 0x9D, CHR 0x8C] @ '' Failed to send DM (DMs might be closed).'')]"
    using C6_staff_forward_outcome [OF staffMessage_basic(1) staff_other(1) resolve_C1_fails(1)
        ticketU1_valid topic u1 nc]
    by (simp add: Let_def topicUserID_ticketU1 staffMessage_basic)
       (simp add: sessionSendFails_def session0_def picture_def)
  have c: "issued world1 (snd (messageCreate cfg0 sessionDMFails ?m world1))
       = [Call_UserChannelCreate ''U1'']"
    using C6_staff_forward_outcome [OF staffMessage_basic(1) staff_other(2) resolve_C1_fails(2)
        ticketU1_valid topic u1 nc]
    by (simp add: Let_def topicUserID_ticketU1 staffMessage_basic)
       (simp add: sessionDMFails_def session0_def)
  show ?thesis
    by (intro conjI staffMessage_basic(1,2) resolve_C1 ticketU1_valid topic' nc a b c)
qed

text \<open>
  C6 fails as stated: the delivery fails because the owner's direct-message channel
  cannot be opened, and the handler returns without a notice to the staff.
\<close>

theorem C6_counterexample:
  "m_GuildID (staffMessage ''C1'' ''Hi Bob'' [picture]) \<noteq> []
   \<and> user_ID (m_Author (staffMessage ''C1'' ''Hi Bob'' [picture])) \<noteq> State_User_ID sessionDMFails
   \<and> resolveChannel sessionDMFails (staffMessage ''C1'' ''Hi Bob'' [picture]) world1 = Some ticketU1
   \<and> ch_ParentID ticketU1 = CategoryID cfg0 \<and> strings_HasPrefix (ch_Name ticketU1) ''ticket-''
   \<and> ch_Topic ticketU1 = ''Modmail ID: U1''
   \<and> strings_ToLower (m_Content (staffMessage ''C1'' ''Hi Bob'' [picture])) \<noteq> ''!close''
   \<and> messageCreate cfg0 sessionDMFails (staffMessage ''C1'' ''Hi Bob'' [picture]) world1
       = (Returned,
          \<lparr>channels = [ticketU1, lounge, noOwner], trace = [Call_UserChannelCreate ''U1'']\<rparr>)"
proof -
  let ?m = "staffMessage ''C1'' ''Hi Bob'' [picture]"
  have nc: "strings_ToLower (m_Content ?m) \<noteq> ''!close''"
    by (simp add: staffMessage_basic not_close)
  have no: "topicUserID ticketU1 \<noteq> []" by (simp add: topicUserID_ticketU1)
  have topic: "ch_Topic ticketU1 = ''Modmail ID: '' @ ''U1''" by (simp add: ticketU1_def)
  have u1: "''U1'' \<noteq> []" by simp
  have topic': "ch_Topic ticketU1 = ''Modmail ID: U1''" by (simp add: ticketU1_def)
  have topic': "ch_Topic ticketU1 = ''Modmail ID: U1''" by (simp add: ticketU1_def)
  have r: "messageCreate cfg0 sessionDMFails ?m world1
       = (Returned,
          \<lparr>channels = [ticketU1, lounge, noOwner], trace = [Call_UserChannelCreate ''U1'']\<rparr>)"
    by (simp add: guild_forward [OF staffMessage_basic(1) staff_other(2) resolve_C1_fails(2)
          ticketU1_valid no nc] topicUserID_ticketU1)
       (simp add: sessionDMFails_def world1_def)
  show ?thesis
    by (intro conjI staffMessage_basic(1) staff_other(2) resolve_C1_fails(2) ticketU1_valid
        topic' nc r)
qed

section \<open>Log entries\<close>

text \<open>
  C7. Every log entry that a run inserts, in either direction, has its attachment flag
  set exactly when the message carries at least one attachment, holds the text of the
  message, and has the sender \<^verbatim>\<open>user\<close> for a direct message and \<^verbatim>\<open>staff\<close> for a
  message in the guild.
\<close>

theorem C7_log_entry_fields:
  assumes e: "Call_InsertOne e \<in> set (issued w (snd (messageCreate cfg s m w)))"
  shows "HasFile e = (m_Attachments m \<noteq> []) \<and> Content e = m_Content m
     \<and> Sender e = (if m_GuildID m = [] then ''user'' else ''staff'')"
proof (cases "user_ID (m_Author m) = State_User_ID s")
  case True
  with e show ?thesis by (simp add: messageCreate_self)
next
  case other: False
  show ?thesis
  proof (cases "m_GuildID m = []")
    case dm: True
    show ?thesis
    proof (cases "findTarget (case GuildChannels s (GuildID cfg) w of None \<Rightarrow> [] | Some chs \<Rightarrow> chs)
                   (user_ID (m_Author m))")
      case (Some tc)
      with e dm show ?thesis
        by (auto simp: dm_found [OF dm other Some] forwardToStaffChannel_eq userLogEntry_def
            split: if_splits)
    next
      case None
      show ?thesis
      proof (cases "fails s (Call_GuildChannelCreateComplex (GuildID cfg) (ticketData cfg (m_Author m)))")
        case True
        with e show ?thesis by (simp add: dm_create_fails [OF dm other None True])
      next
        case False
        with e dm show ?thesis
          by (auto simp: dm_create_ok [OF dm other None False] userLogEntry_def split: if_splits)
      qed
    qed
  next
    case guild: False
    show ?thesis
    proof (cases "\<exists>ch. resolveChannel s m w = Some ch \<and> ch_ParentID ch = CategoryID cfg
                    \<and> strings_HasPrefix (ch_Name ch) ''ticket-''")
      case False
      then have "messageCreate cfg s m w = (Returned, w)"
        using guild by (intro guild_rejected) auto
      with e show ?thesis by simp
    next
      case True
      then obtain ch where ch: "resolveChannel s m w = Some ch" "ch_ParentID ch = CategoryID cfg"
        "strings_HasPrefix (ch_Name ch) ''ticket-''" by blast
      show ?thesis
      proof (cases "topicUserID ch = []")
        case True
        with e show ?thesis by (simp add: guild_no_owner [OF guild ch(1) True])
      next
        case owner: False
        show ?thesis
        proof (cases "strings_ToLower (m_Content m) = ''!close''")
          case True
          with e show ?thesis
            by (auto simp: guild_close [OF guild other ch owner True] split: if_splits)
        next
          case False
          with e guild show ?thesis
            by (auto simp: guild_forward [OF guild other ch owner False] staffLogEntry_def
                split: if_splits)
        qed
      qed
    qed
  qed
qed

theorem C7_log_entry_fields_witness:
  "Call_InsertOne \<lparr>UserID = ''U1'', Content = ''Hello'', HasFile = True, Timestamp = 0,
       Sender = ''user''\<rparr>
     \<in> set (issued world1 (snd (messageCreate cfg0 session0 (dm bob ''Hello'' [picture]) world1)))
   \<and> m_Attachments (dm bob ''Hello'' [picture]) \<noteq> []
   \<and> m_GuildID (dm bob ''Hello'' [picture]) = []
   \<and> Call_InsertOne \<lparr>UserID = ''U1'', Content = ''Hi Bob'', HasFile = False, Timestamp = 0,
       Sender = ''staff''\<rparr>
     \<in> set (issued world1 (snd (messageCreate cfg0 session0 (staffMessage ''C1'' ''Hi Bob'' []) world1)))
   \<and> m_Attachments (staffMessage ''C1'' ''Hi Bob'' []) = []
   \<and> m_GuildID (staffMessage ''C1'' ''Hi Bob'' []) \<noteq> []"
proof -
  let ?m = "dm bob ''Hello'' [picture]"
  let ?r = "staffMessage ''C1'' ''Hi Bob'' []"
  have h1: "m_GuildID ?m = []" by (simp add: dm_def)
  have h2: "user_ID (m_Author ?m) \<noteq> State_User_ID session0"
    by (simp add: dm_def bob_def session0_def)
  have found: "findTarget (case GuildChannels session0 (GuildID cfg0) world1 of
                   None \<Rightarrow> [] | Some chs \<Rightarrow> chs) (user_ID (m_Author ?m)) = Some ticketU1"
    by (simp add: GuildChannels_def session0_def world1_def ticketU1_def
        lounge_def noOwner_def cfg0_def dm_def bob_def)
  have ule: "userLogEntry session0 ?m = \<lparr>UserID = ''U1'', Content = ''Hello'', HasFile = True,
      Timestamp = 0, Sender = ''user''\<rparr>"
    by (simp add: userLogEntry_def dm_def bob_def session0_def)
  have a: "Call_InsertOne (userLogEntry session0 ?m)
      \<in> set (issued world1 (snd (messageCreate cfg0 session0 ?m world1)))"
    by (simp add: dm_found [OF h1 h2 found] forwardToStaffChannel_eq)
  have nc: "strings_ToLower (m_Content ?r) \<noteq> ''!close''"
    by (simp add: staffMessage_basic not_close)
  have no: "topicUserID ticketU1 \<noteq> []" by (simp add: topicUserID_ticketU1)
  have sle: "staffLogEntry session0 (topicUserID ticketU1) ?r = \<lparr>UserID = ''U1'', Content = ''Hi Bob'',
      HasFile = False, Timestamp = 0, Sender = ''staff''\<rparr>"
    by (simp add: staffLogEntry_def topicUserID_ticketU1 staffMessage_basic) (simp add: session0_def)
  have b: "Call_InsertOne (staffLogEntry session0 (topicUserID ticketU1) ?r)
      \<in> set (issued world1 (snd (messageCreate cfg0 session0 ?r world1)))"
    by (simp add: guild_forward [OF staffMessage_basic(1,2) resolve_C1 ticketU1_valid no nc])
       (simp add: session0_def)
  from C7_log_entry_fields [OF a] C7_log_entry_fields [OF b]
  have "m_Attachments ?m \<noteq> []" "m_Attachments ?r = []"
    unfolding ule sle by simp_all
  with a b h1 staffMessage_basic(1) [of "''C1''" "''Hi Bob''" "[]"] show ?thesis
    unfolding ule sle by blast
qed

section \<open>The first listing\<close>

text \<open>
  On a direct message the first listing ends as the second one does, with the same
  channels, and makes the same requests without the notice to the user and the reaction
  to the forwarded message.
\<close>

lemma first_listing_direct_message:
  assumes dm: "m_GuildID m = []"
  shows "fst (messageCreate_1 cfg s m w) = fst (messageCreate cfg s m w)
     \<and> channels (snd (messageCreate_1 cfg s m w)) = channels (snd (messageCreate cfg s m w))
     \<and> issued w (snd (messageCreate_1 cfg s m w))
         = filter (\<lambda>c. \<not> isUserNoticeOrReaction s m c) (issued w (snd (messageCreate cfg s m w)))"
proof (cases "user_ID (m_Author m) = State_User_ID s")
  case True
  then show ?thesis by (simp add: messageCreate_self messageCreate_1_def)
next
  case other: False
  show ?thesis
  proof (cases "findTarget (case GuildChannels s (GuildID cfg) w of None \<Rightarrow> [] | Some chs \<Rightarrow> chs)
                 (user_ID (m_Author m))")
    case (Some tc)
    show ?thesis
      using dm other Some
      by (simp add: dm_found [OF dm other Some] forwardToStaffChannel_eq messageCreate_1_def
          api_defs Let_def userLogEntry_def)
  next
    case None
    show ?thesis
    proof (cases "fails s (Call_GuildChannelCreateComplex (GuildID cfg) (ticketData cfg (m_Author m)))")
      case True
      show ?thesis
        using dm other None True
        by (simp add: dm_create_fails [OF dm other None True] messageCreate_1_def
            api_defs Let_def)
    next
      case False
      show ?thesis
        using dm other None False
        by (simp add: dm_create_ok [OF dm other None False] messageCreate_1_def
            api_defs Let_def userLogEntry_def newTicket_def ticketData_def)
    qed
  qed
qed

text \<open>
  On a staff message the first listing does not report a failed delivery, and it checks
  the guild of the channel instead of its category: a channel of the guild outside the
  ticket category, which the second listing ignores, is served by the first.
\<close>

lemma first_listing_staff_forward:
  assumes "m_GuildID m \<noteq> []" and "user_ID (m_Author m) \<noteq> State_User_ID s"
    and "Channel_get s (m_ChannelID m) w = Some ch"
    and "ch_GuildID ch = GuildID cfg" and "strings_HasPrefix (ch_Name ch) ''ticket-''"
    and "topicUserID ch \<noteq> []"
    and "strings_ToLower (m_Content m) \<noteq> ''!close''"
    and "\<not> fails s (Call_UserChannelCreate (topicUserID ch))"
  shows "messageCreate_1 cfg s m w =
     (Returned,
      w\<lparr>trace := trace w @
           [Call_UserChannelCreate (topicUserID ch),
            Call_ChannelMessageSendEmbed (dmChannelID s (topicUserID ch)) (staffEmbed m)] @
           (if fails s (Call_ChannelMessageSendEmbed (dmChannelID s (topicUserID ch)) (staffEmbed m))
            then []
            else [Call_MessageReactionAdd (m_ChannelID m) (m_ID m) checkMark,
                  Call_InsertOne (staffLogEntry s (topicUserID ch) m)])\<rparr>)"
  using assms by (simp add: messageCreate_1_def api_defs Let_def staffLogEntry_def)

lemma first_listing_checks_guild:
  "ch_ParentID lounge \<noteq> CategoryID cfg0
   \<and> messageCreate cfg0 session0 (staffMessage ''C2'' ''Hi Bob'' []) world1 = (Returned, world1)
   \<and> issued world1 (snd (messageCreate_1 cfg0 session0 (staffMessage ''C2'' ''Hi Bob'' []) world1))
       = [Call_UserChannelCreate ''U7'',
          Call_ChannelMessageSendEmbed ''DM-U7'' (staffEmbed (staffMessage ''C2'' ''Hi Bob'' [])),
          Call_MessageReactionAdd ''C2'' ''M2'' checkMark,
          Call_InsertOne (staffLogEntry session0 ''U7'' (staffMessage ''C2'' ''Hi Bob'' []))]"
proof -
  let ?m = "staffMessage ''C2'' ''Hi Bob'' []"
  have g: "Channel_get session0 (m_ChannelID ?m) world1 = Some lounge"
    by (simp add: session0_def staffMessage_def Channel_get_def world1_def ticketU1_def lounge_def)
  have r: "resolveChannel session0 ?m world1 = Some lounge"
    using g by (simp add: resolveChannel_def session0_def)
  have p: "ch_ParentID lounge \<noteq> CategoryID cfg0" by (simp add: lounge_def cfg0_def)
  have v: "ch_GuildID lounge = GuildID cfg0" "strings_HasPrefix (ch_Name lounge) ''ticket-''"
    by (simp_all add: lounge_def cfg0_def strings_HasPrefix_def)
  have u: "topicUserID lounge = ''U7''"
    by (simp add: topicUserID_def lounge_def strings_HasPrefix_def strings_TrimPrefix_def)
  have no: "topicUserID lounge \<noteq> []" by (simp add: u)
  have nc: "strings_ToLower (m_Content ?m) \<noteq> ''!close''"
    by (simp add: staffMessage_basic not_close)
  have ok: "\<not> fails session0 (Call_UserChannelCreate (topicUserID lounge))"
    by (simp add: session0_def)
  have a: "messageCreate cfg0 session0 ?m world1 = (Returned, world1)"
    using r p by (intro guild_rejected staffMessage_basic(1)) simp
  have b: "issued world1 (snd (messageCreate_1 cfg0 session0 ?m world1))
       = [Call_UserChannelCreate ''U7'',
          Call_ChannelMessageSendEmbed ''DM-U7'' (staffEmbed ?m),
          Call_MessageReactionAdd ''C2'' ''M2'' checkMark,
          Call_InsertOne (staffLogEntry session0 ''U7'' ?m)]"
    by (simp add: first_listing_staff_forward [OF staffMessage_basic(1,2) g v no nc ok] u
        staffMessage_basic)
       (simp add: session0_def)
  from p a b show ?thesis by blast
qed

end
